theory Spec2Isabelle
  imports Complex_Main "HOL-Library.Option_ord" "HOL-Library.Multiset"
begin

section \<open>Values of the review backend (API.py)\<close>

text \<open>
  A Python \<^verbatim>\<open>datetime\<close> is either offset-aware or offset-naive; the integer is the
  instant it denotes. \<^verbatim>\<open>datetime.now(timezone.utc)\<close> is always aware, and ordering an
  aware value against a naive one raises \<^verbatim>\<open>TypeError\<close>.
\<close>

datatype datetime = Aware int | Naive int

text \<open>
  Exceptions are values. \<open>HTTPException status detail\<close> is FastAPI's exception, which the
  framework turns into a response with that status and the detail as its body; the other
  constructors are exceptions that leave a handler uncaught.
\<close>

datatype error =
    HTTPException nat string
  | TypeError
  | ValueError
  | KeyError
  | DuplicateKeyError
  | RequestException
  | UploadError

text \<open>
  The detail messages of the source. Four of them hold one non-ASCII letter each, written
  here as its two UTF-8 bytes; only equality of messages matters below.
\<close>

definition detail_no_autenticado :: string where
  "detail_no_autenticado = ''No autenticado''"

definition detail_token_caducado :: string where
  "detail_token_caducado = ''Token OAuth caducado''"

definition detail_valoracion :: string where
  "detail_valoracion = ''La valoraci'' @ [CHR 0xC3, CHR 0xB3] @ ''n debe estar entre 0 y 5''"

definition detail_geocodificar :: string where
  "detail_geocodificar = ''No se pudo geocodificar la direcci'' @ [CHR 0xC3, CHR 0xB3] @ ''n''"

definition detail_identificador :: string where
  "detail_identificador = ''Identificador inv'' @ [CHR 0xC3, CHR 0xA1] @ ''lido''"

definition detail_no_encontrada :: string where
  "detail_no_encontrada = ''Rese'' @ [CHR 0xC3, CHR 0xB1] @ ''a no encontrada''"

text \<open>
  What the session stores under \<^verbatim>\<open>token_iat\<close> and \<^verbatim>\<open>token_exp\<close>: login writes an ISO
  string or \<^verbatim>\<open>None\<close>; \<^verbatim>\<open>parse_session_datetime\<close> also accepts a datetime object.
  \<open>SNone\<close> stands for a missing key as well, since the session is only read with
  \<^verbatim>\<open>.get\<close>.
\<close>

datatype session_value = SNone | SStr string | SDatetime datetime

text \<open>The dict written by login under \<^verbatim>\<open>user\<close>: four keys, each a string or \<^verbatim>\<open>None\<close>.\<close>

record user_claims =
  c_google_id :: "string option"
  c_email :: "string option"
  c_name :: "string option"
  c_picture :: "string option"

text \<open>
  \<^verbatim>\<open>request.session\<close>, a dict with the keys \<^verbatim>\<open>user\<close>, \<^verbatim>\<open>token\<close>, \<^verbatim>\<open>token_iat\<close> and
  \<^verbatim>\<open>token_exp\<close> (no other key is ever written). \<open>None\<close> is a missing key or a stored
  \<^verbatim>\<open>None\<close>.
\<close>

record session =
  s_user :: "user_claims option"
  s_token :: "string option"
  s_token_iat :: session_value
  s_token_exp :: session_value

text \<open>The dict returned by \<^verbatim>\<open>require_user\<close>: the claims and the keys token, iat, exp.\<close>

record credentials =
  b_claims :: user_claims
  b_token :: string
  b_iat :: "datetime option"
  b_exp :: "datetime option"

text \<open>
  A review document. Every field is read with \<^verbatim>\<open>.get\<close> by \<^verbatim>\<open>serialize_review\<close>, so
  every field is optional; \<open>d_id\<close> is absent until \<^verbatim>\<open>insert_one\<close> assigns it. The type
  \<open>'oid\<close> is bson's ObjectId and \<open>'f\<close> is Python's float, on which the program does no
  arithmetic. \<open>d_created_at\<close> is the UTC instant the database stores and sorts by.
\<close>

record ('oid, 'f) review_doc =
  d_id :: "'oid option"
  d_name :: "string option"
  d_address :: "string option"
  d_latitude :: "'f option"
  d_longitude :: "'f option"
  d_rating :: "int option"
  d_author_email :: "string option"
  d_author_name :: "string option"
  d_token :: "string option"
  d_token_issued_at :: "datetime option"
  d_token_expires_at :: "datetime option"
  d_images :: "string list option"
  d_created_at :: "int option"

text \<open>The dict built by \<^verbatim>\<open>serialize_review\<close>.\<close>

record 'f review_out =
  r_id :: string
  r_name :: "string option"
  r_address :: "string option"
  r_latitude :: "'f option"
  r_longitude :: "'f option"
  r_rating :: "int option"
  r_author_email :: "string option"
  r_author_name :: "string option"
  r_token :: "string option"
  r_token_issued_at :: "datetime option"
  r_token_expires_at :: "datetime option"
  r_images :: "string list"
  r_created_at :: "int option"

text \<open>
  Starlette's \<^verbatim>\<open>UploadFile\<close>: its file name (optional) and the bytes of its stream.
  The class defines neither \<^verbatim>\<open>__bool__\<close> nor \<^verbatim>\<open>__len__\<close>, so an UploadFile object is
  truthy whatever its content; \<^verbatim>\<open>not file\<close> holds only for a \<^verbatim>\<open>None\<close> entry, which is
  why the entries of the list are optional here.
\<close>

record upload_file =
  uf_filename :: "string option"
  uf_file :: string

text \<open>
  The libraries and services the program calls, none of them under src/, taken as
  parameters: \<open>fromisoformat\<close> is \<^verbatim>\<open>datetime.fromisoformat\<close> (\<open>None\<close>: ValueError),
  \<open>ObjectId\<close> is bson's constructor from a string (\<open>None\<close>: it raises), \<open>oid_str\<close> is
  \<^verbatim>\<open>str\<close> on an ObjectId, \<open>pyfloat\<close> is \<^verbatim>\<open>float\<close> on a string (\<open>None\<close>: ValueError),
  \<open>nominatim\<close> is the geocoding request with \<^verbatim>\<open>raise_for_status\<close> and \<^verbatim>\<open>json\<close>,
  \<open>cloudinary_upload\<close> is the upload of one stream followed by
  \<^verbatim>\<open>result.get("secure_url")\<close>, and \<open>new_oid\<close> is the identifier the driver generates
  for the document of this request.
\<close>

record ('oid, 'f) env =
  fromisoformat :: "string \<Rightarrow> datetime option"
  ObjectId :: "string \<Rightarrow> 'oid option"
  oid_str :: "'oid \<Rightarrow> string"
  pyfloat :: "string \<Rightarrow> 'f option"
  nominatim :: "string \<Rightarrow> error + (string \<rightharpoonup> string) list"
  cloudinary_upload :: "string \<Rightarrow> error + string option"
  new_oid :: "'oid"

text \<open>The calls that leave the process, in the order they are made.\<close>

datatype call = GeocodeCall string | UploadCall string | FindCall | FindOneCall | InsertCall

text \<open>
  The state a request runs in: the client's session, the collection \<^verbatim>\<open>Resenas\<close> in
  insertion order, and the log of outbound calls.
\<close>

record ('oid, 'f) world =
  w_session :: session
  reviews_collection :: "('oid, 'f) review_doc list"
  calls :: "call list"

record 'f template_context =
  ctx_user :: credentials
  ctx_reviews :: "'f review_out list"
  ctx_selected_review :: "'f review_out option"

datatype 'f response =
    RedirectResponse string nat
  | TemplateResponse string "'f template_context"
  | JSONResponse "'f review_out"

fun status_code :: "'f response \<Rightarrow> nat" where
  "status_code (RedirectResponse url c) = c"
| "status_code (TemplateResponse t ctx) = 200"
| "status_code (JSONResponse r) = 200"

section \<open>Session utilities\<close>

definition parse_session_datetime :: "('oid, 'f) env \<Rightarrow> session_value \<Rightarrow> datetime option" where
  "parse_session_datetime e v =
     (case v of
        SDatetime d \<Rightarrow> Some d
      | SStr s \<Rightarrow> fromisoformat e s
      | SNone \<Rightarrow> None)"

text \<open>\<^verbatim>\<open>datetime.now(timezone.utc) >= token_exp\<close>, with the aware current instant \<open>now\<close>.\<close>

fun now_ge :: "int \<Rightarrow> datetime \<Rightarrow> error + bool" where
  "now_ge now (Aware t) = Inr (t \<le> now)"
| "now_ge now (Naive t) = Inl TypeError"

definition session_clear :: session where
  "session_clear = \<lparr>s_user = None, s_token = None, s_token_iat = SNone, s_token_exp = SNone\<rparr>"

definition get_session_user ::
  "('oid, 'f) env \<Rightarrow> int \<Rightarrow> session \<Rightarrow> (error + user_claims option) \<times> session" where
  "get_session_user e now s =
     (case parse_session_datetime e (s_token_exp s) of
        None \<Rightarrow> (Inr (s_user s), s)
      | Some token_exp \<Rightarrow>
          (case now_ge now token_exp of
             Inl err \<Rightarrow> (Inl err, s)
           | Inr True \<Rightarrow> (Inr None, session_clear)
           | Inr False \<Rightarrow> (Inr (s_user s), s)))"

text \<open>\<^verbatim>\<open>not token\<close> for an optional string: missing, \<^verbatim>\<open>None\<close> or empty.\<close>

definition falsy_str :: "string option \<Rightarrow> bool" where
  "falsy_str v = (case v of None \<Rightarrow> True | Some s \<Rightarrow> s = [])"

definition require_user ::
  "('oid, 'f) env \<Rightarrow> int \<Rightarrow> session \<Rightarrow> (error + credentials) \<times> session" where
  "require_user e now s =
     (let token_exp = parse_session_datetime e (s_token_exp s) in
      case s_user s of
        None \<Rightarrow> (Inl (HTTPException 401 detail_no_autenticado), s)
      | Some user \<Rightarrow>
          if falsy_str (s_token s) then (Inl (HTTPException 401 detail_no_autenticado), s)
          else
            (let ok = (Inr \<lparr>b_claims = user, b_token = the (s_token s),
                            b_iat = parse_session_datetime e (s_token_iat s),
                            b_exp = token_exp\<rparr>, s) in
             case token_exp of
               None \<Rightarrow> ok
             | Some t \<Rightarrow>
                 (case now_ge now t of
                    Inl err \<Rightarrow> (Inl err, s)
                  | Inr True \<Rightarrow> (Inl (HTTPException 401 detail_token_caducado), session_clear)
                  | Inr False \<Rightarrow> ok)))"

section \<open>Geocoder and media uploader\<close>

definition geocode_address ::
  "('oid, 'f) env \<Rightarrow> string \<Rightarrow> call list \<Rightarrow> (error + 'f option \<times> 'f option) \<times> call list" where
  "geocode_address e address cs =
     (let cs' = cs @ [GeocodeCall address] in
      case nominatim e address of
        Inl err \<Rightarrow> (Inl err, cs')
      | Inr [] \<Rightarrow> (Inr (None, None), cs')
      | Inr (place # rest) \<Rightarrow>
          (case place ''lat'' of
             None \<Rightarrow> (Inl KeyError, cs')
           | Some la \<Rightarrow>
               (case pyfloat e la of
                  None \<Rightarrow> (Inl ValueError, cs')
                | Some lat \<Rightarrow>
                    (case place ''lon'' of
                       None \<Rightarrow> (Inl KeyError, cs')
                     | Some lo \<Rightarrow>
                         (case pyfloat e lo of
                            None \<Rightarrow> (Inl ValueError, cs')
                          | Some lon \<Rightarrow> (Inr (Some lat, Some lon), cs'))))))"

text \<open>
  The loop of \<^verbatim>\<open>upload_images\<close>, with \<open>urls\<close> the list \<^verbatim>\<open>uploaded_urls\<close> so far. An
  exception of the uploader leaves the loop at once.
\<close>

fun upload_loop ::
  "('oid, 'f) env \<Rightarrow> upload_file option list \<Rightarrow> string list \<Rightarrow> call list \<Rightarrow>
     (error + string list) \<times> call list" where
  "upload_loop e [] urls cs = (Inr urls, cs)"
| "upload_loop e (None # files) urls cs = upload_loop e files urls cs"
| "upload_loop e (Some f # files) urls cs =
     (if falsy_str (uf_filename f) then upload_loop e files urls cs
      else
        (case cloudinary_upload e (uf_file f) of
           Inl err \<Rightarrow> (Inl err, cs @ [UploadCall (uf_file f)])
         | Inr secure_url \<Rightarrow>
             upload_loop e files
               (if falsy_str secure_url then urls else urls @ [the secure_url])
               (cs @ [UploadCall (uf_file f)])))"

definition upload_images ::
  "('oid, 'f) env \<Rightarrow> upload_file option list option \<Rightarrow> call list \<Rightarrow>
     (error + string list) \<times> call list" where
  "upload_images e files cs =
     (case files of
        None \<Rightarrow> (Inr [], cs)
      | Some [] \<Rightarrow> (Inr [], cs)
      | Some fs \<Rightarrow> upload_loop e fs [] cs)"

section \<open>Review repository\<close>

definition serialize_review :: "('oid, 'f) env \<Rightarrow> ('oid, 'f) review_doc \<Rightarrow> 'f review_out" where
  "serialize_review e doc =
     \<lparr>r_id = (case d_id doc of None \<Rightarrow> ''None'' | Some i \<Rightarrow> oid_str e i),
      r_name = d_name doc,
      r_address = d_address doc,
      r_latitude = d_latitude doc,
      r_longitude = d_longitude doc,
      r_rating = d_rating doc,
      r_author_email = d_author_email doc,
      r_author_name = d_author_name doc,
      r_token = d_token doc,
      r_token_issued_at = d_token_issued_at doc,
      r_token_expires_at = d_token_expires_at doc,
      r_images = (case d_images doc of None \<Rightarrow> [] | Some us \<Rightarrow> us),
      r_created_at = d_created_at doc\<rparr>"

text \<open>
  Modelled from the spec: the database engine behind \<^verbatim>\<open>reviews_collection\<close> is not
  under src/. \<^verbatim>\<open>find().sort("created_at", -1)\<close> yields every document of the collection,
  ordered by \<^verbatim>\<open>created_at\<close> descending (a document without the field counts as lowest);
  \<^verbatim>\<open>find_one({"_id": oid})\<close> yields the first document with that identifier;
  \<^verbatim>\<open>insert_one\<close> stores the document under the generated identifier and refuses a
  duplicate.
\<close>

definition find_sort_created_at_desc ::
  "('oid, 'f) review_doc list \<Rightarrow> ('oid, 'f) review_doc list" where
  "find_sort_created_at_desc docs = rev (sort_key d_created_at docs)"

definition find_one :: "('oid, 'f) review_doc list \<Rightarrow> 'oid \<Rightarrow> ('oid, 'f) review_doc option" where
  "find_one docs oid = find (\<lambda>d. d_id d = Some oid) docs"

definition insert_one ::
  "('oid, 'f) env \<Rightarrow> ('oid, 'f) review_doc \<Rightarrow> ('oid, 'f) world \<Rightarrow>
     (error + 'oid) \<times> ('oid, 'f) world" where
  "insert_one e doc w =
     (let w' = w\<lparr>calls := calls w @ [InsertCall]\<rparr> in
      if find_one (reviews_collection w) (new_oid e) \<noteq> None then (Inl DuplicateKeyError, w')
      else (Inr (new_oid e),
            w'\<lparr>reviews_collection := reviews_collection w @ [doc\<lparr>d_id := Some (new_oid e)\<rparr>]\<rparr>))"

section \<open>Request handlers\<close>

text \<open>
  The body of \<^verbatim>\<open>list_reviews\<close>, given the result \<open>user\<close> of its dependency. A serialized
  review is a dict of thirteen keys, hence truthy, so \<^verbatim>\<open>not selected_review\<close> holds
  exactly when the search of the list found nothing. The \<^verbatim>\<open>try\<close> block turns an
  exception of \<^verbatim>\<open>ObjectId(selected)\<close> into no selection.
\<close>

definition list_reviews ::
  "('oid, 'f) env \<Rightarrow> string option \<Rightarrow> credentials \<Rightarrow> ('oid, 'f) world \<Rightarrow>
     (error + 'f response) \<times> ('oid, 'f) world" where
  "list_reviews e selected user w =
     (let docs = reviews_collection w;
          reviews = map (serialize_review e) (find_sort_created_at_desc docs);
          cs = calls w @ [FindCall];
          (selected_review, cs') =
            (if falsy_str selected then (None, cs)
             else
               (case find (\<lambda>r. r_id r = the selected) reviews of
                  Some r \<Rightarrow> (Some r, cs)
                | None \<Rightarrow>
                    (case ObjectId e (the selected) of
                       None \<Rightarrow> (None, cs)
                     | Some oid \<Rightarrow>
                         (case find_one docs oid of
                            None \<Rightarrow> (None, cs @ [FindOneCall])
                          | Some db_review \<Rightarrow>
                              (Some (serialize_review e db_review), cs @ [FindOneCall])))))
      in (Inr (TemplateResponse ''mapa.html''
                 \<lparr>ctx_user = user, ctx_reviews = reviews,
                  ctx_selected_review = selected_review\<rparr>),
          w\<lparr>calls := cs'\<rparr>))"

text \<open>
  The body of \<^verbatim>\<open>create_review\<close>. \<open>now\<close> is the clock reading taken for \<^verbatim>\<open>created_at\<close>.
\<close>

definition create_review ::
  "('oid, 'f) env \<Rightarrow> int \<Rightarrow> string \<Rightarrow> string \<Rightarrow> int \<Rightarrow> upload_file option list option \<Rightarrow>
     credentials \<Rightarrow> ('oid, 'f) world \<Rightarrow> (error + 'f response) \<times> ('oid, 'f) world" where
  "create_review e now name address rating images user w =
     (if rating < 0 \<or> rating > 5 then (Inl (HTTPException 400 detail_valoracion), w)
      else
        (case geocode_address e address (calls w) of
           (Inl err, cs) \<Rightarrow> (Inl err, w\<lparr>calls := cs\<rparr>)
         | (Inr (lat, lon), cs) \<Rightarrow>
             if lat = None \<or> lon = None
             then (Inl (HTTPException 400 detail_geocodificar), w\<lparr>calls := cs\<rparr>)
             else
               (case upload_images e images cs of
                  (Inl err, cs') \<Rightarrow> (Inl err, w\<lparr>calls := cs'\<rparr>)
                | (Inr uploaded_urls, cs') \<Rightarrow>
                    (let review_doc =
                           \<lparr>d_id = None,
                            d_name = Some name,
                            d_address = Some address,
                            d_latitude = lat,
                            d_longitude = lon,
                            d_rating = Some rating,
                            d_author_email = c_email (b_claims user),
                            d_author_name = c_name (b_claims user),
                            d_token = Some (b_token user),
                            d_token_issued_at = b_iat user,
                            d_token_expires_at = b_exp user,
                            d_images = Some uploaded_urls,
                            d_created_at = Some now\<rparr>
                     in case insert_one e review_doc (w\<lparr>calls := cs'\<rparr>) of
                          (Inl err, w') \<Rightarrow> (Inl err, w')
                        | (Inr review_id, w') \<Rightarrow>
                            (Inr (RedirectResponse
                                    (''/reviews?selected='' @ oid_str e review_id) 303),
                             w')))))"

text \<open>
  The body of \<^verbatim>\<open>get_review\<close>. A document returned by the database has an \<^verbatim>\<open>_id\<close>, so it
  is truthy and \<^verbatim>\<open>not db_review\<close> holds exactly when nothing was found.
\<close>

definition get_review ::
  "('oid, 'f) env \<Rightarrow> string \<Rightarrow> credentials \<Rightarrow> ('oid, 'f) world \<Rightarrow>
     (error + 'f response) \<times> ('oid, 'f) world" where
  "get_review e review_id user w =
     (case ObjectId e review_id of
        None \<Rightarrow> (Inl (HTTPException 400 detail_identificador), w)
      | Some oid \<Rightarrow>
          (case find_one (reviews_collection w) oid of
             None \<Rightarrow>
               (Inl (HTTPException 404 detail_no_encontrada),
                w\<lparr>calls := calls w @ [FindOneCall]\<rparr>)
           | Some db_review \<Rightarrow>
               (Inr (JSONResponse (serialize_review e db_review)),
                w\<lparr>calls := calls w @ [FindOneCall]\<rparr>)))"

text \<open>
  The endpoints: FastAPI runs the dependency \<^verbatim>\<open>Depends(require_user)\<close> on the request's
  session first and calls the body only when it returns. \<open>now\<close> is the clock reading of
  the dependency.
\<close>

definition with_user ::
  "('oid, 'f) env \<Rightarrow> int \<Rightarrow> ('oid, 'f) world \<Rightarrow>
     (credentials \<Rightarrow> ('oid, 'f) world \<Rightarrow> (error + 'f response) \<times> ('oid, 'f) world) \<Rightarrow>
     (error + 'f response) \<times> ('oid, 'f) world" where
  "with_user e now w body =
     (case require_user e now (w_session w) of
        (Inl err, s') \<Rightarrow> (Inl err, w\<lparr>w_session := s'\<rparr>)
      | (Inr user, s') \<Rightarrow> body user (w\<lparr>w_session := s'\<rparr>))"

definition GET_reviews ::
  "('oid, 'f) env \<Rightarrow> int \<Rightarrow> string option \<Rightarrow> ('oid, 'f) world \<Rightarrow>
     (error + 'f response) \<times> ('oid, 'f) world" where
  "GET_reviews e now selected w = with_user e now w (list_reviews e selected)"

definition POST_reviews ::
  "('oid, 'f) env \<Rightarrow> int \<Rightarrow> int \<Rightarrow> string \<Rightarrow> string \<Rightarrow> int \<Rightarrow> upload_file option list option \<Rightarrow>
     ('oid, 'f) world \<Rightarrow> (error + 'f response) \<times> ('oid, 'f) world" where
  "POST_reviews e now now_created name address rating images w =
     with_user e now w (create_review e now_created name address rating images)"

definition GET_review ::
  "('oid, 'f) env \<Rightarrow> int \<Rightarrow> string \<Rightarrow> ('oid, 'f) world \<Rightarrow>
     (error + 'f response) \<times> ('oid, 'f) world" where
  "GET_review e now review_id w = with_user e now w (get_review e review_id)"

section \<open>Signing in and out\<close>

text \<open>
  The claims of a verified Google identity token, as \<^verbatim>\<open>login\<close> reads them with
  \<^verbatim>\<open>.get\<close>: four optional strings and the optional epoch seconds \<^verbatim>\<open>iat\<close> and \<^verbatim>\<open>exp\<close>.
\<close>

record id_info =
  i_sub :: "string option"
  i_email :: "string option"
  i_name :: "string option"
  i_picture :: "string option"
  i_iat :: "int option"
  i_exp :: "int option"

definition detail_token_requerido :: string where
  "detail_token_requerido = ''Token requerido''"

definition detail_token_invalido :: string where
  "detail_token_invalido = ''Token inv'' @ [CHR 0xC3, CHR 0xA1] @ ''lido''"

text \<open>
  \<^verbatim>\<open>datetime.fromtimestamp(t, tz=timezone.utc)\<close> is the aware datetime of the instant \<open>t\<close>.
\<close>

definition parse_token_times :: "id_info \<Rightarrow> datetime option \<times> datetime option" where
  "parse_token_times info =
     (case i_iat info of None \<Rightarrow> None | Some issued \<Rightarrow> Some (Aware issued),
      case i_exp info of None \<Rightarrow> None | Some expires \<Rightarrow> Some (Aware expires))"

text \<open>
  \<^verbatim>\<open>login\<close>. Two more library functions are parameters: \<open>verify\<close> is
  \<^verbatim>\<open>id_token.verify_oauth2_token\<close> with the configured client identifier (any exception
  becomes the 401), and \<open>isoformat\<close> is \<^verbatim>\<open>datetime.isoformat\<close>. The four assignments
  to the session overwrite its four keys.
\<close>

definition login ::
  "(string \<Rightarrow> error + id_info) \<Rightarrow> (datetime \<Rightarrow> string) \<Rightarrow> string option \<Rightarrow> session \<Rightarrow>
     (error + 'f response) \<times> session" where
  "login verify isoformat token s =
     (if falsy_str token then (Inl (HTTPException 400 detail_token_requerido), s)
      else
        (case verify (the token) of
           Inl exc \<Rightarrow> (Inl (HTTPException 401 detail_token_invalido), s)
         | Inr info \<Rightarrow>
             (let (issued_dt, expires_dt) = parse_token_times info;
                  user_info = \<lparr>c_google_id = i_sub info, c_email = i_email info,
                               c_name = i_name info, c_picture = i_picture info\<rparr>
              in (Inr (RedirectResponse ''/reviews'' 303),
                  \<lparr>s_user = Some user_info,
                   s_token = token,
                   s_token_iat = (case issued_dt of None \<Rightarrow> SNone
                                  | Some d \<Rightarrow> SStr (isoformat d)),
                   s_token_exp = (case expires_dt of None \<Rightarrow> SNone
                                  | Some d \<Rightarrow> SStr (isoformat d))\<rparr>))))"

definition logout :: "session \<Rightarrow> 'f response \<times> session" where
  "logout s = (RedirectResponse ''/'' 303, session_clear)"

text \<open>
  The sessions the program writes. A client starts with an empty session, and the session
  is only ever changed by \<^verbatim>\<open>login\<close>, \<^verbatim>\<open>logout\<close>, \<^verbatim>\<open>get_session_user\<close> and
  \<^verbatim>\<open>require_user\<close>.
\<close>

inductive written ::
  "('oid, 'f) env \<Rightarrow> (string \<Rightarrow> error + id_info) \<Rightarrow> (datetime \<Rightarrow> string) \<Rightarrow> session \<Rightarrow> bool"
  for e :: "('oid, 'f) env" and verify :: "string \<Rightarrow> error + id_info"
    and isoformat :: "datetime \<Rightarrow> string" where
  written_empty: "written e verify isoformat session_clear"
| written_login:
    "written e verify isoformat s \<Longrightarrow> s' = snd (login verify isoformat token s :: (error + 'f response) \<times> session) \<Longrightarrow>
       written e verify isoformat s'"
| written_logout:
    "written e verify isoformat s \<Longrightarrow> s' = snd (logout s :: 'f response \<times> session) \<Longrightarrow>
       written e verify isoformat s'"
| written_get_session_user:
    "written e verify isoformat s \<Longrightarrow> s' = snd (get_session_user e now s) \<Longrightarrow>
       written e verify isoformat s'"
| written_require_user:
    "written e verify isoformat s \<Longrightarrow> s' = snd (require_user e now s) \<Longrightarrow>
       written e verify isoformat s'"

section \<open>The session operations in the words of the specification\<close>

text \<open>
  The stored expiry is what \<^verbatim>\<open>parse_session_datetime\<close> makes of the \<^verbatim>\<open>token_exp\<close>
  entry. It is absent or still in the future, or it equals or precedes the current time;
  a naive datetime is neither, since it cannot be ordered against the aware clock.
\<close>

definition expiry_absent_or_future :: "('oid, 'f) env \<Rightarrow> int \<Rightarrow> session \<Rightarrow> bool" where
  "expiry_absent_or_future e now s =
     (case parse_session_datetime e (s_token_exp s) of
        None \<Rightarrow> True
      | Some (Aware t) \<Rightarrow> now < t
      | Some (Naive t) \<Rightarrow> False)"

definition expiry_passed :: "('oid, 'f) env \<Rightarrow> int \<Rightarrow> session \<Rightarrow> bool" where
  "expiry_passed e now s =
     (case parse_session_datetime e (s_token_exp s) of
        None \<Rightarrow> False
      | Some (Aware t) \<Rightarrow> t \<le> now
      | Some (Naive t) \<Rightarrow> False)"

text \<open>
  \<^verbatim>\<open>currentUser()\<close> as section 4.2 of the specification words it: the user claims if
  present and the expiry is absent or still in the future; otherwise the session is
  cleared and the result is absent.
\<close>

definition currentUser_spec ::
  "('oid, 'f) env \<Rightarrow> int \<Rightarrow> session \<Rightarrow> (error + user_claims option) \<times> session" where
  "currentUser_spec e now s =
     (if s_user s \<noteq> None \<and> expiry_absent_or_future e now s then (Inr (s_user s), s)
      else (Inr None, session_clear))"

section \<open>The accepted uploads, in the source and in the specification\<close>

text \<open>
  The uploads the source accepts: the entries that are a file object with a non-empty
  file name, in order.
\<close>

fun accepted :: "upload_file option list \<Rightarrow> upload_file list" where
  "accepted [] = []"
| "accepted (None # files) = accepted files"
| "accepted (Some f # files) =
     (if falsy_str (uf_filename f) then accepted files else f # accepted files)"

text \<open>
  The uploads section 4.4 of the specification accepts: a file with no content or no name
  is skipped.
\<close>

fun accepted_spec :: "upload_file option list \<Rightarrow> upload_file list" where
  "accepted_spec [] = []"
| "accepted_spec (None # files) = accepted_spec files"
| "accepted_spec (Some f # files) =
     (if uf_file f = [] \<or> falsy_str (uf_filename f) then accepted_spec files
      else f # accepted_spec files)"

text \<open>The secure URLs the host returns for a list of files, in order; none for an upload
  whose result has no (or an empty) \<^verbatim>\<open>secure_url\<close>.\<close>

definition returned_urls :: "('oid, 'f) env \<Rightarrow> upload_file list \<Rightarrow> string list" where
  "returned_urls e fs =
     concat (map (\<lambda>f. case cloudinary_upload e (uf_file f) of
                          Inr (Some url) \<Rightarrow> (if url = [] then [] else [url])
                        | _ \<Rightarrow> []) fs)"

section \<open>A concrete environment\<close>

text \<open>
  One environment and one signed-in client on which the model is evaluated: a geocoder
  that knows a single address, an uploader that accepts every stream, identifiers written
  as their 24 characters (one of them also accepted in upper case, as bson does) and
  floats as reals.
\<close>

definition demo_env :: "(string, real) env" where
  "demo_env =
     \<lparr>fromisoformat = (\<lambda>s.
          if s = ''2030-01-01T00:00:00+00:00'' then Some (Aware 1893456000)
          else if s = ''2020-01-01T00:00:00+00:00'' then Some (Aware 1577836800)
          else if s = ''2030-01-01T00:00:00'' then Some (Naive 1893456000)
          else None),
      ObjectId = (\<lambda>s.
          if s = ''65F0A1B2C3D4E5F601234567'' then Some ''65f0a1b2c3d4e5f601234567''
          else if length s = 24 then Some s else None),
      oid_str = (\<lambda>i. i),
      pyfloat = (\<lambda>s.
          if s = ''36.72'' then Some 36.72 else if s = ''-4.42'' then Some (-4.42) else None),
      nominatim = (\<lambda>a.
          if a = ''123 Main St'' then Inr [[''lat'' \<mapsto> ''36.72'', ''lon'' \<mapsto> ''-4.42'']]
          else Inr []),
      cloudinary_upload = (\<lambda>b. Inr (Some (''https://res.cloudinary.com/demo/reviews/'' @ b))),
      new_oid = ''65f0a1b2c3d4e5f601234567''\<rparr>"

definition demo_claims :: user_claims where
  "demo_claims =
     \<lparr>c_google_id = Some ''1'', c_email = Some ''ana@example.org'', c_name = Some ''Ana'',
      c_picture = None\<rparr>"

definition demo_session :: session where
  "demo_session =
     \<lparr>s_user = Some demo_claims, s_token = Some ''tok'',
      s_token_iat = SStr ''2020-01-01T00:00:00+00:00'',
      s_token_exp = SStr ''2030-01-01T00:00:00+00:00''\<rparr>"

definition demo_credentials :: credentials where
  "demo_credentials =
     \<lparr>b_claims = demo_claims, b_token = ''tok'', b_iat = Some (Aware 1577836800),
      b_exp = Some (Aware 1893456000)\<rparr>"

definition demo_doc :: "(string, real) review_doc" where
  "demo_doc =
     \<lparr>d_id = Some ''65f0a1b2c3d4e5f601234567'', d_name = Some ''Cafe X'',
      d_address = Some ''123 Main St'', d_latitude = Some 36.72,
      d_longitude = Some (-4.42), d_rating = Some 4,
      d_author_email = Some ''ana@example.org'',
      d_author_name = Some ''Ana'', d_token = Some ''tok'',
      d_token_issued_at = Some (Aware 1577836800),
      d_token_expires_at = Some (Aware 1893456000), d_images = Some [],
      d_created_at = Some 1700000001\<rparr>"

definition demo_doc1 :: "(string, real) review_doc" where
  "demo_doc1 = demo_doc\<lparr>d_id := Some ''000000000000000000000001'', d_name := Some ''Bar 1'',
                         d_created_at := Some 1700000100\<rparr>"

definition demo_doc2 :: "(string, real) review_doc" where
  "demo_doc2 = demo_doc\<lparr>d_id := Some ''000000000000000000000002'', d_name := Some ''Bar 2'',
                         d_created_at := Some 1700000200\<rparr>"

definition demo_doc3 :: "(string, real) review_doc" where
  "demo_doc3 = demo_doc\<lparr>d_id := Some ''000000000000000000000003'', d_name := Some ''Bar 3'',
                         d_created_at := Some 1700000300\<rparr>"

definition demo_world :: "(string, real) world" where
  "demo_world = \<lparr>w_session = demo_session, reviews_collection = [], calls = []\<rparr>"

definition demo_world_stored :: "(string, real) world" where
  "demo_world_stored = demo_world\<lparr>reviews_collection := [demo_doc]\<rparr>"

definition demo_world_three :: "(string, real) world" where
  "demo_world_three = demo_world\<lparr>reviews_collection := [demo_doc1, demo_doc2, demo_doc3]\<rparr>"

definition demo_files :: "upload_file option list" where
  "demo_files = [Some \<lparr>uf_filename = Some ''a.png'', uf_file = ''PNG1''\<rparr>]"

definition demo_empty_file :: upload_file where
  "demo_empty_file = \<lparr>uf_filename = Some ''empty.png'', uf_file = ''''\<rparr>"

definition demo_mixed_files :: "upload_file option list" where
  "demo_mixed_files =
     [Some \<lparr>uf_filename = Some ''a.png'', uf_file = ''PNG1''\<rparr>,
      None,
      Some \<lparr>uf_filename = Some '''', uf_file = ''PNG2''\<rparr>,
      Some \<lparr>uf_filename = None, uf_file = ''PNG3''\<rparr>,
      Some \<lparr>uf_filename = Some ''b.png'', uf_file = ''PNG4''\<rparr>]"

definition demo_verify :: "string \<Rightarrow> error + id_info" where
  "demo_verify token =
     (if token = ''tok''
      then Inr \<lparr>i_sub = Some ''1'', i_email = Some ''ana@example.org'', i_name = Some ''Ana'',
                i_picture = None, i_iat = Some 1577836800, i_exp = Some 1893456000\<rparr>
      else Inl ValueError)"

definition demo_isoformat :: "datetime \<Rightarrow> string" where
  "demo_isoformat d =
     (if d = Aware 1893456000 then ''2030-01-01T00:00:00+00:00''
      else if d = Aware 1577836800 then ''2020-01-01T00:00:00+00:00''
      else ''1970-01-01T00:00:00+00:00'')"

section \<open>The dependency and the endpoints\<close>

lemma require_user_Inr:
  "require_user e now s = (Inr u, s') \<Longrightarrow> s' = s"
  by (auto simp: require_user_def Let_def split: option.splits if_splits sum.splits bool.splits)

lemma with_user_Inr:
  "require_user e now (w_session w) = (Inr u, s') \<Longrightarrow> with_user e now w body = body u w"
  using require_user_Inr[of e now "w_session w" u s'] by (simp add: with_user_def)

lemma with_user_Inl:
  "require_user e now (w_session w) = (Inl err, s') \<Longrightarrow>
     with_user e now w body = (Inl err, w\<lparr>w_session := s'\<rparr>)"
  by (simp add: with_user_def)

lemma with_user_cases:
  obtains (denied) err s' where "require_user e now (w_session w) = (Inl err, s')"
      "with_user e now w body = (Inl err, w\<lparr>w_session := s'\<rparr>)"
  | (granted) u where "require_user e now (w_session w) = (Inr u, w_session w)"
      "with_user e now w body = body u w"
proof (cases "require_user e now (w_session w)")
  case (Pair r s')
  show ?thesis
  proof (cases r)
    case (Inl err)
    with Pair denied with_user_Inl show ?thesis by blast
  next
    case (Inr u)
    with Pair have "require_user e now (w_session w) = (Inr u, s')" by simp
    with granted require_user_Inr with_user_Inr show ?thesis by metis
  qed
qed

lemma demo_require_user:
  "require_user demo_env 1700000000 demo_session = (Inr demo_credentials, demo_session)"
  by (simp add: require_user_def demo_env_def demo_session_def demo_credentials_def
      parse_session_datetime_def falsy_str_def)

lemma demo_POST_ok:
  "POST_reviews demo_env 1700000000 1700000001 ''Cafe X'' ''123 Main St'' 4 None demo_world
     = (Inr (RedirectResponse ''/reviews?selected=65f0a1b2c3d4e5f601234567'' 303),
        demo_world\<lparr>reviews_collection := [demo_doc],
                   calls := [GeocodeCall ''123 Main St'', InsertCall]\<rparr>)"
  unfolding POST_reviews_def demo_world_def
  apply (simp add: with_user_def demo_require_user)
  apply (simp add: create_review_def geocode_address_def upload_images_def insert_one_def
      find_one_def demo_env_def demo_claims_def demo_credentials_def demo_doc_def)
  done

section \<open>Creating a review: the rating check\<close>

lemma create_review_bad_rating:
  "rating < 0 \<or> 5 < rating \<Longrightarrow>
     create_review e nc name address rating images u w
       = (Inl (HTTPException 400 detail_valoracion), w)"
  by (simp add: create_review_def)

lemma create_review_Inr_rating:
  "create_review e nc name address rating images u w = (Inr resp, w') \<Longrightarrow>
     0 \<le> rating \<and> rating \<le> 5"
  by (cases "rating < 0 \<or> 5 < rating") (auto simp: create_review_def)

lemma POST_reviews_Inr_rating:
  assumes ok: "fst (POST_reviews e now nc name address rating images w) = Inr resp"
  shows "0 \<le> rating \<and> rating \<le> 5"
proof (cases rule: with_user_cases[of e now w "create_review e nc name address rating images"])
  case (denied err s')
  with ok show ?thesis by (simp add: POST_reviews_def)
next
  case (granted u)
  with ok have "fst (create_review e nc name address rating images u w) = Inr resp"
    by (simp add: POST_reviews_def)
  then show ?thesis
    using create_review_Inr_rating[of e nc name address rating images u w resp]
    by (cases "create_review e nc name address rating images u w") simp
qed

lemma POST_reviews_bad_rating:
  assumes "require_user e now (w_session w) = (Inr u, s')" and bad: "rating < 0 \<or> 5 < rating"
  shows "POST_reviews e now nc name address rating images w
           = (Inl (HTTPException 400 detail_valoracion), w)"
proof -
  have "POST_reviews e now nc name address rating images w
               = create_review e nc name address rating images u w"
    using assms(1) by (simp add: POST_reviews_def with_user_Inr)
  with bad show ?thesis by (simp add: create_review_bad_rating)
qed

text \<open>
  Claim C2. With a valid session, a rating below 0 or above 5 is answered with status 400
  (so are -1 and 6), and whatever the session, a request that succeeds had a rating
  between 0 and 5.
\<close>

theorem POST_reviews_rating_range:
  fixes rating :: int
  shows "(\<forall>resp. fst (POST_reviews e now nc name address rating images w) = Inr resp
            \<longrightarrow> 0 \<le> rating \<and> rating \<le> 5)
       \<and> ((\<exists>u s'. require_user e now (w_session w) = (Inr u, s')) \<longrightarrow> rating < 0 \<or> 5 < rating
            \<longrightarrow> fst (POST_reviews e now nc name address rating images w)
                  = Inl (HTTPException 400 detail_valoracion))"
  using POST_reviews_Inr_rating[of e now nc name address rating images w]
    POST_reviews_bad_rating[of e now w _ _ rating nc name address images]
  by auto

theorem POST_reviews_rating_range_witness:
  "fst (POST_reviews demo_env 1700000000 1700000001 ''Cafe X'' ''123 Main St'' 4 None demo_world)
     = Inr (RedirectResponse ''/reviews?selected=65f0a1b2c3d4e5f601234567'' 303)
   \<and> (0::int) \<le> 4 \<and> (4::int) \<le> 5
   \<and> fst (POST_reviews demo_env 1700000000 1700000001 ''Cafe X'' ''123 Main St'' (-1) None
            demo_world)
       = Inl (HTTPException 400 detail_valoracion)
   \<and> fst (POST_reviews demo_env 1700000000 1700000001 ''Cafe X'' ''123 Main St'' 6 None
            demo_world)
       = Inl (HTTPException 400 detail_valoracion)"
  using
    POST_reviews_rating_range[of demo_env 1700000000 1700000001 "''Cafe X''" "''123 Main St''"
      4 None demo_world]
    POST_reviews_rating_range[of demo_env 1700000000 1700000001 "''Cafe X''" "''123 Main St''"
      "-1" None demo_world]
    POST_reviews_rating_range[of demo_env 1700000000 1700000001 "''Cafe X''" "''123 Main St''"
      6 None demo_world]
    demo_require_user demo_POST_ok
  by (simp add: demo_world_def)

section \<open>Creating a review: no call before the rating check\<close>

lemma POST_reviews_denied:
  "require_user e now (w_session w) = (Inl err, s') \<Longrightarrow>
     POST_reviews e now nc name address rating images w = (Inl err, w\<lparr>w_session := s'\<rparr>)"
  by (simp add: POST_reviews_def with_user_Inl)

lemma POST_reviews_granted:
  "require_user e now (w_session w) = (Inr u, s') \<Longrightarrow>
     POST_reviews e now nc name address rating images w
       = create_review e nc name address rating images u w"
  by (simp add: POST_reviews_def with_user_Inr)

lemma POST_reviews_bad_rating_effects:
  assumes bad: "rating < 0 \<or> 5 < rating"
  shows "calls (snd (POST_reviews e now nc name address rating images w)) = calls w
       \<and> reviews_collection (snd (POST_reviews e now nc name address rating images w))
           = reviews_collection w"
proof (cases rule: with_user_cases[of e now w "create_review e nc name address rating images"])
  case (denied err s')
  then show ?thesis by (simp add: POST_reviews_def)
next
  case (granted u)
  with bad show ?thesis by (simp add: POST_reviews_def create_review_bad_rating)
qed

text \<open>
  Claim C10. A request whose rating is below 0 or above 5 makes no outbound call and
  leaves the collection as it was: the log of calls (geocoder, uploader, database) is
  unchanged, and with a valid session the answer is the 400 of the rating check.
\<close>

theorem POST_reviews_rating_before_calls:
  fixes rating :: int
  assumes "rating < 0 \<or> 5 < rating"
  shows "calls (snd (POST_reviews e now nc name address rating images w)) = calls w
       \<and> reviews_collection (snd (POST_reviews e now nc name address rating images w))
           = reviews_collection w
       \<and> ((\<exists>u s'. require_user e now (w_session w) = (Inr u, s')) \<longrightarrow>
            POST_reviews e now nc name address rating images w
              = (Inl (HTTPException 400 detail_valoracion), w))"
  using assms POST_reviews_bad_rating_effects[of rating e now nc name address images w]
    POST_reviews_bad_rating[of e now w _ _ rating nc name address images]
  by blast

lemma demo_POST_with_image:
  "calls (snd (POST_reviews demo_env 1700000000 1700000001 ''Cafe X'' ''123 Main St'' 4
                (Some demo_files) demo_world))
     = [GeocodeCall ''123 Main St'', UploadCall ''PNG1'', InsertCall]"
  unfolding POST_reviews_def demo_world_def
  apply (simp add: with_user_def demo_require_user)
  apply (simp add: create_review_def geocode_address_def upload_images_def insert_one_def
      find_one_def demo_env_def demo_files_def falsy_str_def)
  done

theorem POST_reviews_rating_before_calls_witness:
  "((6::int) < 0 \<or> (5::int) < 6)
   \<and> POST_reviews demo_env 1700000000 1700000001 ''Cafe X'' ''123 Main St'' 6 (Some demo_files)
        demo_world
       = (Inl (HTTPException 400 detail_valoracion), demo_world)
   \<and> calls (snd (POST_reviews demo_env 1700000000 1700000001 ''Cafe X'' ''123 Main St'' 6
                   (Some demo_files) demo_world)) = []
   \<and> reviews_collection (snd (POST_reviews demo_env 1700000000 1700000001 ''Cafe X''
                   ''123 Main St'' 6 (Some demo_files) demo_world)) = []
   \<and> calls (snd (POST_reviews demo_env 1700000000 1700000001 ''Cafe X'' ''123 Main St'' 4
                   (Some demo_files) demo_world))
       = [GeocodeCall ''123 Main St'', UploadCall ''PNG1'', InsertCall]"
  using
    POST_reviews_rating_before_calls[of 6 demo_env 1700000000 1700000001 "''Cafe X''"
      "''123 Main St''" "Some demo_files" demo_world]
    demo_require_user demo_POST_with_image
  by (simp add: demo_world_def)

section \<open>Creating a review: geocoding and the stored coordinates\<close>

lemma geocode_address_no_result:
  "nominatim e address = Inr [] \<Longrightarrow>
     geocode_address e address cs = (Inr (None, None), cs @ [GeocodeCall address])"
  by (simp add: geocode_address_def)

lemma create_review_no_result:
  assumes "nominatim e address = Inr []"
  shows "create_review e nc name address rating images u w
           = (if rating < 0 \<or> 5 < rating then (Inl (HTTPException 400 detail_valoracion), w)
              else (Inl (HTTPException 400 detail_geocodificar),
                    w\<lparr>calls := calls w @ [GeocodeCall address]\<rparr>))"
  using assms by (simp add: create_review_def geocode_address_no_result)

lemma insert_one_collection:
  "reviews_collection (snd (insert_one e doc w)) = reviews_collection w
   \<or> reviews_collection (snd (insert_one e doc w))
       = reviews_collection w @ [doc\<lparr>d_id := Some (new_oid e)\<rparr>]"
  by (simp add: insert_one_def Let_def)

lemma create_review_collection:
  "reviews_collection (snd (create_review e nc name address rating images u w))
     = reviews_collection w
   \<or> (\<exists>d. reviews_collection (snd (create_review e nc name address rating images u w))
            = reviews_collection w @ [d]
          \<and> d_latitude d \<noteq> None \<and> d_longitude d \<noteq> None)"
proof (cases "rating < 0 \<or> 5 < rating")
  case True
  then show ?thesis by (simp add: create_review_bad_rating)
next
  case False
  obtain g cs where g: "geocode_address e address (calls w) = (g, cs)" by force
  show ?thesis
  proof (cases g)
    case (Inl err)
    with False g show ?thesis by (simp add: create_review_def)
  next
    case (Inr ll)
    obtain lat lon where ll: "ll = (lat, lon)" by force
    show ?thesis
    proof (cases "lat = None \<or> lon = None")
      case True
      with False g Inr ll show ?thesis by (simp add: create_review_def)
    next
      case present: False
      obtain up cs' where up: "upload_images e images cs = (up, cs')" by force
      show ?thesis
      proof (cases up)
        case (Inl err)
        with False g Inr ll present up show ?thesis by (simp add: create_review_def)
      next
        case urls: (Inr uploaded_urls)
        let ?doc = "\<lparr>d_id = None, d_name = Some name, d_address = Some address,
                      d_latitude = lat, d_longitude = lon, d_rating = Some rating,
                      d_author_email = c_email (b_claims u),
                      d_author_name = c_name (b_claims u),
                      d_token = Some (b_token u), d_token_issued_at = b_iat u,
                      d_token_expires_at = b_exp u, d_images = Some uploaded_urls,
                      d_created_at = Some nc\<rparr>"
        from present obtain la lo where some: "lat = Some la" "lon = Some lo" by auto
        have "reviews_collection (snd (create_review e nc name address rating images u w))
                = reviews_collection (snd (insert_one e ?doc (w\<lparr>calls := cs'\<rparr>)))"
          using False g Inr ll some up urls
          by (auto simp: create_review_def Let_def split: prod.splits sum.splits)
        with insert_one_collection[of e ?doc "w\<lparr>calls := cs'\<rparr>"] present
        show ?thesis by auto
      qed
    qed
  qed
qed

lemma POST_reviews_collection:
  "reviews_collection (snd (POST_reviews e now nc name address rating images w))
     = reviews_collection w
   \<or> (\<exists>d. reviews_collection (snd (POST_reviews e now nc name address rating images w))
            = reviews_collection w @ [d]
          \<and> d_latitude d \<noteq> None \<and> d_longitude d \<noteq> None)"
proof (cases rule: with_user_cases[of e now w "create_review e nc name address rating images"])
  case (denied err s')
  then show ?thesis by (simp add: POST_reviews_def)
next
  case (granted u)
  with create_review_collection[of e nc name address rating images u w]
  show ?thesis by (simp add: POST_reviews_def)
qed

lemma POST_reviews_no_result_effects:
  assumes "nominatim e address = Inr []"
  shows "reviews_collection (snd (POST_reviews e now nc name address rating images w))
           = reviews_collection w
       \<and> (calls (snd (POST_reviews e now nc name address rating images w)) = calls w
          \<or> calls (snd (POST_reviews e now nc name address rating images w))
              = calls w @ [GeocodeCall address])"
proof (cases rule: with_user_cases[of e now w "create_review e nc name address rating images"])
  case (denied err s')
  then show ?thesis by (simp add: POST_reviews_def)
next
  case (granted u)
  with assms show ?thesis by (simp add: POST_reviews_def create_review_no_result)
qed

text \<open>
  Claim C1. When the geocoder has no result for the submitted address, the request writes
  nothing to the collection and its only possible outbound call is the geocoding request;
  with a valid session the answer is a 400. Whatever the request, the collection is
  afterwards either unchanged or extended by one document whose latitude and longitude
  are both present.
\<close>

theorem POST_reviews_geocode_no_result:
  "(nominatim e address = Inr [] \<longrightarrow>
      reviews_collection (snd (POST_reviews e now nc name address rating images w))
        = reviews_collection w
      \<and> (calls (snd (POST_reviews e now nc name address rating images w)) = calls w
         \<or> calls (snd (POST_reviews e now nc name address rating images w))
             = calls w @ [GeocodeCall address])
      \<and> ((\<exists>u s'. require_user e now (w_session w) = (Inr u, s')) \<longrightarrow>
           fst (POST_reviews e now nc name address rating images w)
             = Inl (HTTPException 400
                 (if rating < 0 \<or> 5 < rating then detail_valoracion else detail_geocodificar))))
   \<and> (reviews_collection (snd (POST_reviews e now nc name address rating images w))
         = reviews_collection w
      \<or> (\<exists>d. reviews_collection (snd (POST_reviews e now nc name address rating images w))
               = reviews_collection w @ [d]
             \<and> d_latitude d \<noteq> None \<and> d_longitude d \<noteq> None))"
proof (intro conjI impI)
  assume nr: "nominatim e address = Inr []"
  from POST_reviews_no_result_effects[OF nr]
  show "reviews_collection (snd (POST_reviews e now nc name address rating images w))
        = reviews_collection w" by blast
  from POST_reviews_no_result_effects[OF nr]
  show "calls (snd (POST_reviews e now nc name address rating images w)) = calls w
         \<or> calls (snd (POST_reviews e now nc name address rating images w))
             = calls w @ [GeocodeCall address]" by blast
  assume "\<exists>u s'. require_user e now (w_session w) = (Inr u, s')"
  then obtain u s' where "require_user e now (w_session w) = (Inr u, s')" by blast
  with nr show "fst (POST_reviews e now nc name address rating images w)
             = Inl (HTTPException 400
                 (if rating < 0 \<or> 5 < rating then detail_valoracion else detail_geocodificar))"
    by (simp add: POST_reviews_granted create_review_no_result)
next
  show "reviews_collection (snd (POST_reviews e now nc name address rating images w))
         = reviews_collection w
      \<or> (\<exists>d. reviews_collection (snd (POST_reviews e now nc name address rating images w))
               = reviews_collection w @ [d]
             \<and> d_latitude d \<noteq> None \<and> d_longitude d \<noteq> None)"
    by (rule POST_reviews_collection)
qed

theorem POST_reviews_geocode_no_result_witness:
  "nominatim demo_env ''Nowhere 1'' = Inr []
   \<and> require_user demo_env 1700000000 (w_session demo_world) = (Inr demo_credentials, demo_session)
   \<and> POST_reviews demo_env 1700000000 1700000001 ''Cafe X'' ''Nowhere 1'' 4 None demo_world
       = (Inl (HTTPException 400 detail_geocodificar),
          demo_world\<lparr>calls := [GeocodeCall ''Nowhere 1'']\<rparr>)
   \<and> reviews_collection
        (snd (POST_reviews demo_env 1700000000 1700000001 ''Cafe X'' ''123 Main St'' 4 None
               demo_world)) = reviews_collection demo_world @ [demo_doc]
   \<and> d_latitude demo_doc \<noteq> None \<and> d_longitude demo_doc \<noteq> None"
proof -
  have nr: "nominatim demo_env ''Nowhere 1'' = Inr []" by (simp add: demo_env_def)
  have au: "require_user demo_env 1700000000 (w_session demo_world)
              = (Inr demo_credentials, demo_session)"
    by (simp add: demo_world_def demo_require_user)
  let ?P = "POST_reviews demo_env 1700000000 1700000001 ''Cafe X'' ''Nowhere 1'' 4 None demo_world"
  from POST_reviews_geocode_no_result[of demo_env "''Nowhere 1''" 1700000000 1700000001
      "''Cafe X''" 4 None demo_world] nr au
  have "reviews_collection (snd ?P) = []" and "calls (snd ?P) = [] \<or> calls (snd ?P) = [GeocodeCall ''Nowhere 1'']"
    and "fst ?P = Inl (HTTPException 400 detail_geocodificar)"
    by (auto simp: demo_world_def)
  moreover have "?P = (Inl (HTTPException 400 detail_geocodificar),
          demo_world\<lparr>calls := [GeocodeCall ''Nowhere 1'']\<rparr>)"
    using au nr by (simp add: POST_reviews_granted create_review_no_result demo_world_def)
  ultimately show ?thesis using nr au demo_POST_ok by (simp add: demo_world_def demo_doc_def)
qed

section \<open>Sessions\<close>

lemma get_session_user_passed:
  "expiry_passed e now s \<Longrightarrow> get_session_user e now s = (Inr None, session_clear)"
  by (auto simp: expiry_passed_def get_session_user_def split: option.splits datetime.splits)

lemma get_session_user_not_passed:
  "expiry_absent_or_future e now s \<Longrightarrow> get_session_user e now s = (Inr (s_user s), s)"
  by (auto simp: expiry_absent_or_future_def get_session_user_def
      split: option.splits datetime.splits)

text \<open>A stored expiry without an offset cannot be compared with the clock.\<close>

lemma get_session_user_naive:
  "parse_session_datetime e (s_token_exp s) = Some (Naive t) \<Longrightarrow>
     get_session_user e now s = (Inl TypeError, s)"
  by (simp add: get_session_user_def)

lemma require_user_no_credentials:
  "s_user s = None \<or> falsy_str (s_token s) \<Longrightarrow>
     require_user e now s = (Inl (HTTPException 401 detail_no_autenticado), s)"
  by (auto simp: require_user_def Let_def split: option.splits)

lemma require_user_passed:
  "s_user s \<noteq> None \<Longrightarrow> \<not> falsy_str (s_token s) \<Longrightarrow> expiry_passed e now s \<Longrightarrow>
     require_user e now s = (Inl (HTTPException 401 detail_token_caducado), session_clear)"
  by (auto simp: require_user_def Let_def expiry_passed_def split: option.splits datetime.splits)

lemma require_user_valid:
  "s_user s \<noteq> None \<Longrightarrow> \<not> falsy_str (s_token s) \<Longrightarrow> expiry_absent_or_future e now s \<Longrightarrow>
     require_user e now s
       = (Inr \<lparr>b_claims = the (s_user s), b_token = the (s_token s),
               b_iat = parse_session_datetime e (s_token_iat s),
               b_exp = parse_session_datetime e (s_token_exp s)\<rparr>, s)"
  by (auto simp: require_user_def Let_def expiry_absent_or_future_def
      split: option.splits datetime.splits)

lemma require_user_passed_401:
  assumes "expiry_passed e now s"
  shows "\<exists>d s'. require_user e now s = (Inl (HTTPException 401 d), s')"
proof (cases "s_user s = None \<or> falsy_str (s_token s)")
  case True
  then show ?thesis using require_user_no_credentials by blast
next
  case False
  with assms show ?thesis using require_user_passed by blast
qed

lemma session_clear_fields:
  "s_user session_clear = None" "s_token session_clear = None"
  "s_token_iat session_clear = SNone" "s_token_exp session_clear = SNone"
  by (simp_all add: session_clear_def)

lemma demo_expired: "expiry_passed demo_env 1900000000 demo_session"
  by (simp add: expiry_passed_def parse_session_datetime_def demo_env_def demo_session_def)

lemma demo_not_expired: "expiry_absent_or_future demo_env 1700000000 demo_session"
  by (simp add: expiry_absent_or_future_def parse_session_datetime_def demo_env_def
      demo_session_def)

text \<open>
  What \<^verbatim>\<open>get_session_user\<close> does by the stored expiry alone, on any session, and what
  both functions do on the empty session.
\<close>

lemma get_session_user_by_expiry:
  "(expiry_passed e now s \<longrightarrow>
      get_session_user e now s = (Inr None, session_clear)
      \<and> (\<exists>d s'. require_user e now s = (Inl (HTTPException 401 d), s')))
   \<and> (expiry_absent_or_future e now s \<longrightarrow> get_session_user e now s = (Inr (s_user s), s))
   \<and> get_session_user e now session_clear = (Inr None, session_clear)
   \<and> require_user e now session_clear
       = (Inl (HTTPException 401 detail_no_autenticado), session_clear)"
proof (intro conjI impI)
  assume "expiry_passed e now s"
  then show "get_session_user e now s = (Inr None, session_clear)"
    and "\<exists>d s'. require_user e now s = (Inl (HTTPException 401 d), s')"
    by (simp_all add: get_session_user_passed require_user_passed_401)
next
  assume "expiry_absent_or_future e now s"
  then show "get_session_user e now s = (Inr (s_user s), s)"
    by (rule get_session_user_not_passed)
next
  show "get_session_user e now session_clear = (Inr None, session_clear)"
    by (simp add: get_session_user_def parse_session_datetime_def session_clear_fields)
  show "require_user e now session_clear
          = (Inl (HTTPException 401 detail_no_autenticado), session_clear)"
    by (simp add: require_user_no_credentials session_clear_fields)
qed

text \<open>
  On the empty session and on a session holding user claims, with an expiry that can be
  compared with the clock, the source and the specification's wording agree.
\<close>

lemma get_session_user_spec_on_written_sessions:
  assumes "s = session_clear \<or> s_user s \<noteq> None"
    and "expiry_passed e now s \<or> expiry_absent_or_future e now s"
  shows "get_session_user e now s = currentUser_spec e now s"
proof (cases "expiry_passed e now s")
  case True
  then have "\<not> expiry_absent_or_future e now s"
    by (auto simp: expiry_passed_def expiry_absent_or_future_def
        split: option.splits datetime.splits)
  with True show ?thesis by (simp add: get_session_user_passed currentUser_spec_def)
next
  case False
  with assms(2) have fut: "expiry_absent_or_future e now s" by blast
  from assms(1) show ?thesis
  proof
    assume "s = session_clear"
    with fut show ?thesis
      by (simp add: get_session_user_not_passed currentUser_spec_def session_clear_fields)
  next
    assume "s_user s \<noteq> None"
    with fut show ?thesis by (simp add: get_session_user_not_passed currentUser_spec_def)
  qed
qed

text \<open>
  What every written session looks like: it is empty, or it holds user claims and an
  expiry that is absent or the ISO string of the aware expiry instant of a verified token.
\<close>

lemma login_session:
  "snd (login verify isoformat token s :: (error + 'f response) \<times> session) = s
   \<or> (\<exists>info. verify (the token) = Inr info
         \<and> s_user (snd (login verify isoformat token s :: (error + 'f response) \<times> session)) \<noteq> None
         \<and> s_token_exp (snd (login verify isoformat token s :: (error + 'f response) \<times> session))
             = (case i_exp info of None \<Rightarrow> SNone | Some t \<Rightarrow> SStr (isoformat (Aware t))))"
  by (auto simp: login_def parse_token_times_def Let_def split: sum.splits option.splits)

lemma get_session_user_session:
  "snd (get_session_user e now s) = s \<or> snd (get_session_user e now s) = session_clear"
  by (auto simp: get_session_user_def split: option.splits sum.splits bool.splits)

lemma require_user_session:
  "snd (require_user e now s) = s \<or> snd (require_user e now s) = session_clear"
  by (auto simp: require_user_def Let_def split: option.splits sum.splits bool.splits)

lemma written_shape:
  assumes "written e verify isoformat s"
  shows "s = session_clear
       \<or> (s_user s \<noteq> None
          \<and> (s_token_exp s = SNone
             \<or> (\<exists>token info t. verify token = Inr info \<and> i_exp info = Some t
                   \<and> s_token_exp s = SStr (isoformat (Aware t)))))"
  using assms
proof (induction rule: written.induct)
  case written_empty
  then show ?case by simp
next
  case (written_login s s' token)
  from login_session[of verify isoformat token s, where ?'f = 'b] written_login
  show ?case by (auto split: option.splits)
next
  case (written_logout s s')
  then show ?case by (simp add: logout_def)
next
  case (written_get_session_user s s' now)
  from written_get_session_user(2) get_session_user_session[of e now s]
  have "s' = s \<or> s' = session_clear" by simp
  then show ?case
  proof
    assume "s' = s"
    with written_get_session_user.IH show ?case by simp
  next
    assume "s' = session_clear"
    then show ?case by simp
  qed
next
  case (written_require_user s s' now)
  from written_require_user(2) require_user_session[of e now s]
  have "s' = s \<or> s' = session_clear" by simp
  then show ?case
  proof
    assume "s' = s"
    with written_require_user.IH show ?case by simp
  next
    assume "s' = session_clear"
    then show ?case by simp
  qed
qed

lemma written_expiry_comparable:
  assumes "written e verify isoformat s"
    and "\<forall>token info t. verify token = Inr info \<and> i_exp info = Some t \<longrightarrow>
           fromisoformat e (isoformat (Aware t)) = Some (Aware t)"
  shows "expiry_passed e now s \<or> expiry_absent_or_future e now s"
proof -
  from written_shape[OF assms(1)]
  consider "s_token_exp s = SNone"
    | token info t where "verify token = Inr info" "i_exp info = Some t"
        "s_token_exp s = SStr (isoformat (Aware t))"
    by (auto simp: session_clear_fields)
  then show ?thesis
  proof cases
    case 1
    then show ?thesis by (simp add: expiry_absent_or_future_def parse_session_datetime_def)
  next
    case 2
    with assms(2) have "parse_session_datetime e (s_token_exp s) = Some (Aware t)"
      by (auto simp: parse_session_datetime_def)
    then show ?thesis by (auto simp: expiry_passed_def expiry_absent_or_future_def)
  qed
qed

lemma expiry_passed_not_future:
  "expiry_passed e now s \<Longrightarrow> \<not> expiry_absent_or_future e now s"
  by (auto simp: expiry_passed_def expiry_absent_or_future_def
      split: option.splits datetime.splits)

text \<open>
  Claim C3. On every session the program writes, with an ISO string that
  \<^verbatim>\<open>fromisoformat\<close> reads back as the aware datetime it was printed from,
  \<^verbatim>\<open>get_session_user\<close> returns the stored user claims, leaving the session as it is, if
  they are present and the stored expiry is absent or still in the future; otherwise it
  clears the session and returns absent. A session whose expiry equals or precedes the
  current time is answered like the empty session: \<^verbatim>\<open>get_session_user\<close> returns absent
  and \<^verbatim>\<open>require_user\<close> fails with 401.
\<close>

theorem get_session_user_written:
  assumes "written e verify isoformat s"
    and "\<forall>token info t. verify token = Inr info \<and> i_exp info = Some t \<longrightarrow>
           fromisoformat e (isoformat (Aware t)) = Some (Aware t)"
  shows "(s_user s \<noteq> None \<and> expiry_absent_or_future e now s \<longrightarrow>
            get_session_user e now s = (Inr (s_user s), s))
       \<and> (\<not> (s_user s \<noteq> None \<and> expiry_absent_or_future e now s) \<longrightarrow>
            get_session_user e now s = (Inr None, session_clear))
       \<and> get_session_user e now s = currentUser_spec e now s
       \<and> (expiry_passed e now s \<longrightarrow>
            get_session_user e now s = (Inr None, session_clear)
            \<and> get_session_user e now session_clear = (Inr None, session_clear)
            \<and> (\<exists>d s'. require_user e now s = (Inl (HTTPException 401 d), s'))
            \<and> (\<exists>d s'. require_user e now session_clear = (Inl (HTTPException 401 d), s')))"
proof -
  from written_shape[OF assms(1)]
  have shape: "s = session_clear \<or> s_user s \<noteq> None" by blast
  have cmp: "expiry_passed e now s \<or> expiry_absent_or_future e now s"
    by (rule written_expiry_comparable[OF assms])
  have spec: "get_session_user e now s = currentUser_spec e now s"
    by (rule get_session_user_spec_on_written_sessions[OF shape cmp])
  have empty: "get_session_user e now session_clear = (Inr None, session_clear)"
    by (simp add: get_session_user_def parse_session_datetime_def session_clear_fields)
  have empty401: "\<exists>d s'. require_user e now session_clear = (Inl (HTTPException 401 d), s')"
    using require_user_no_credentials[of session_clear e now]
    by (simp add: session_clear_fields)
  show ?thesis
  proof (intro conjI impI)
    assume "s_user s \<noteq> None \<and> expiry_absent_or_future e now s"
    then show "get_session_user e now s = (Inr (s_user s), s)"
      by (simp add: get_session_user_not_passed)
  next
    assume "\<not> (s_user s \<noteq> None \<and> expiry_absent_or_future e now s)"
    then have "currentUser_spec e now s = (Inr None, session_clear)"
      unfolding currentUser_spec_def by (rule if_not_P)
    with spec show "get_session_user e now s = (Inr None, session_clear)" by simp
  next
    show "get_session_user e now s = currentUser_spec e now s" by (rule spec)
  next
    assume p: "expiry_passed e now s"
    then show "get_session_user e now s = (Inr None, session_clear)"
      by (rule get_session_user_passed)
    show "get_session_user e now session_clear = (Inr None, session_clear)" by (rule empty)
    from p show "\<exists>d s'. require_user e now s = (Inl (HTTPException 401 d), s')"
      by (rule require_user_passed_401)
    show "\<exists>d s'. require_user e now session_clear = (Inl (HTTPException 401 d), s')"
      by (rule empty401)
  qed
qed

lemma demo_login:
  "snd (login demo_verify demo_isoformat (Some ''tok'') session_clear
          :: (error + real response) \<times> session) = demo_session"
  by (simp add: login_def demo_verify_def demo_isoformat_def parse_token_times_def
      falsy_str_def demo_session_def demo_claims_def)

lemma demo_session_written: "written demo_env demo_verify demo_isoformat demo_session"
  using written_login[OF written_empty, of demo_session demo_verify demo_isoformat "Some ''tok''"
      demo_env] demo_login
  by simp

lemma demo_isoformat_read_back:
  "\<forall>token info t. demo_verify token = Inr info \<and> i_exp info = Some t \<longrightarrow>
     fromisoformat demo_env (demo_isoformat (Aware t)) = Some (Aware t)"
  by (auto simp: demo_verify_def demo_isoformat_def demo_env_def split: if_splits)

theorem get_session_user_written_witness:
  "written demo_env demo_verify demo_isoformat demo_session
   \<and> s_user demo_session \<noteq> None
   \<and> expiry_absent_or_future demo_env 1700000000 demo_session
   \<and> get_session_user demo_env 1700000000 demo_session = (Inr (Some demo_claims), demo_session)
   \<and> expiry_passed demo_env 1893456000 demo_session
   \<and> get_session_user demo_env 1893456000 demo_session = (Inr None, session_clear)
   \<and> get_session_user demo_env 1893456000 session_clear = (Inr None, session_clear)
   \<and> require_user demo_env 1893456000 demo_session
       = (Inl (HTTPException 401 detail_token_caducado), session_clear)
   \<and> require_user demo_env 1893456000 session_clear
       = (Inl (HTTPException 401 detail_no_autenticado), session_clear)
   \<and> written demo_env demo_verify demo_isoformat session_clear
   \<and> get_session_user demo_env 1700000000 session_clear = (Inr None, session_clear)"
proof -
  have passed: "expiry_passed demo_env 1893456000 demo_session"
    by (simp add: expiry_passed_def parse_session_datetime_def demo_env_def demo_session_def)
  have user: "s_user demo_session = Some demo_claims" by (simp add: demo_session_def)
  have r1: "require_user demo_env 1893456000 demo_session
       = (Inl (HTTPException 401 detail_token_caducado), session_clear)"
    by (rule require_user_passed[OF _ _ passed]) (simp_all add: demo_session_def falsy_str_def)
  have r2: "require_user demo_env 1893456000 session_clear
       = (Inl (HTTPException 401 detail_no_autenticado), session_clear)"
    by (simp add: require_user_no_credentials session_clear_fields)
  have empty: "written demo_env demo_verify demo_isoformat session_clear"
    by (rule written_empty)
  note at_login = get_session_user_written[OF demo_session_written demo_isoformat_read_back,
      of 1700000000]
  note at_expiry = get_session_user_written[OF demo_session_written demo_isoformat_read_back,
      of 1893456000]
  note no_session = get_session_user_written[OF empty demo_isoformat_read_back, of 1700000000]
  have present: "s_user demo_session \<noteq> None" by (simp add: user)
  have absent: "\<not> (s_user session_clear \<noteq> None
                    \<and> expiry_absent_or_future demo_env 1700000000 session_clear)"
    by (simp add: session_clear_fields)
  from at_login present demo_not_expired
  have "get_session_user demo_env 1700000000 demo_session
          = (Inr (s_user demo_session), demo_session)"
    by blast
  then have a: "get_session_user demo_env 1700000000 demo_session
                  = (Inr (Some demo_claims), demo_session)"
    by (simp add: user)
  from at_expiry passed
  have b: "get_session_user demo_env 1893456000 demo_session = (Inr None, session_clear)"
    and c: "get_session_user demo_env 1893456000 session_clear = (Inr None, session_clear)"
    by blast+
  from no_session absent
  have d: "get_session_user demo_env 1700000000 session_clear = (Inr None, session_clear)"
    by blast
  from demo_session_written empty demo_not_expired passed present a b c d r1 r2
  show ?thesis by simp
qed

text \<open>
  Claim C4, as amended. \<^verbatim>\<open>require_user\<close> fails with status 401 and detail
  "No autenticado" when the user claims or the token are missing, leaving the session as
  it is; it fails with status 401 and detail "Token OAuth caducado" when both are present
  and the stored expiry equals or precedes the current time, and then clears the session;
  it returns the credential bundle when both are present and the expiry is absent or
  still in the future.
\<close>

theorem require_user_failures:
  "((s_user s = None \<or> falsy_str (s_token s)) \<longrightarrow>
      require_user e now s = (Inl (HTTPException 401 detail_no_autenticado), s))
   \<and> (s_user s \<noteq> None \<and> \<not> falsy_str (s_token s) \<and> expiry_passed e now s \<longrightarrow>
        require_user e now s = (Inl (HTTPException 401 detail_token_caducado), session_clear))
   \<and> (s_user s \<noteq> None \<and> \<not> falsy_str (s_token s) \<and> expiry_absent_or_future e now s \<longrightarrow>
        require_user e now s
          = (Inr \<lparr>b_claims = the (s_user s), b_token = the (s_token s),
                  b_iat = parse_session_datetime e (s_token_iat s),
                  b_exp = parse_session_datetime e (s_token_exp s)\<rparr>, s))"
  using require_user_no_credentials[of s e now] require_user_passed[of s e now]
    require_user_valid[of s e now]
  by blast

theorem require_user_failures_witness:
  "(s_user session_clear = None \<or> falsy_str (s_token session_clear))
   \<and> require_user demo_env 1900000000 session_clear
       = (Inl (HTTPException 401 ''No autenticado''), session_clear)
   \<and> (s_user demo_session \<noteq> None \<and> \<not> falsy_str (s_token demo_session)
        \<and> expiry_passed demo_env 1900000000 demo_session)
   \<and> require_user demo_env 1900000000 demo_session
       = (Inl (HTTPException 401 ''Token OAuth caducado''), session_clear)
   \<and> expiry_absent_or_future demo_env 1700000000 demo_session
   \<and> require_user demo_env 1700000000 demo_session = (Inr demo_credentials, demo_session)"
  using require_user_failures[of session_clear demo_env 1900000000]
    require_user_failures[of demo_session demo_env 1900000000]
    require_user_failures[of demo_session demo_env 1700000000]
    demo_expired demo_not_expired demo_require_user
  by (simp add: session_clear_fields demo_session_def falsy_str_def
      detail_no_autenticado_def detail_token_caducado_def)

text \<open>
  The claim as stated fails: the caller of an empty session and the caller of an expired
  one receive the same status and different details.
\<close>

theorem require_user_detail_counterexample:
  "fst (require_user demo_env 1900000000 session_clear)
     = Inl (HTTPException 401 ''No autenticado'')
   \<and> fst (require_user demo_env 1900000000 demo_session)
       = Inl (HTTPException 401 ''Token OAuth caducado'')
   \<and> fst (require_user demo_env 1900000000 session_clear)
       \<noteq> fst (require_user demo_env 1900000000 demo_session)"
  by (simp add: require_user_def parse_session_datetime_def session_clear_def demo_session_def
      demo_env_def falsy_str_def detail_no_autenticado_def detail_token_caducado_def)

section \<open>Fetching one review\<close>

lemma find_one_None: "find_one docs oid = None \<longleftrightarrow> (\<forall>d\<in>set docs. d_id d \<noteq> Some oid)"
  by (auto simp: find_one_def find_None_iff)

lemma find_one_Some: "find_one docs oid = Some d \<Longrightarrow> d \<in> set docs \<and> d_id d = Some oid"
  by (auto simp: find_one_def find_Some_iff)

lemma GET_review_granted:
  "require_user e now (w_session w) = (Inr u, s') \<Longrightarrow>
     GET_review e now review_id w = get_review e review_id u w"
  by (simp add: GET_review_def with_user_Inr)

lemma get_review_malformed:
  "ObjectId e review_id = None \<Longrightarrow>
     get_review e review_id u w = (Inl (HTTPException 400 detail_identificador), w)"
  by (simp add: get_review_def)

lemma get_review_missing:
  "ObjectId e review_id = Some oid \<Longrightarrow> \<forall>d\<in>set (reviews_collection w). d_id d \<noteq> Some oid \<Longrightarrow>
     fst (get_review e review_id u w) = Inl (HTTPException 404 detail_no_encontrada)"
  using find_one_None[of "reviews_collection w" oid] by (simp add: get_review_def)

lemma get_review_found:
  assumes "ObjectId e review_id = Some oid" and "\<exists>d\<in>set (reviews_collection w). d_id d = Some oid"
  shows "\<exists>d\<in>set (reviews_collection w). d_id d = Some oid
           \<and> fst (get_review e review_id u w) = Inr (JSONResponse (serialize_review e d))"
proof -
  from assms(2) find_one_None[of "reviews_collection w" oid]
  obtain d where d: "find_one (reviews_collection w) oid = Some d" by auto
  with assms(1) have "fst (get_review e review_id u w) = Inr (JSONResponse (serialize_review e d))"
    by (simp add: get_review_def)
  with find_one_Some[OF d] show ?thesis by blast
qed

text \<open>
  Claim C7. For an authenticated request, an identifier that bson's \<^verbatim>\<open>ObjectId\<close> rejects
  is answered with 400 (and not 404), a well-formed identifier that no document of the
  collection carries with 404, and a well-formed identifier that some document carries
  with the serialization of such a document.
\<close>

theorem GET_review_outcomes:
  assumes "require_user e now (w_session w) = (Inr u, s')"
  shows "(ObjectId e review_id = None \<longrightarrow>
            fst (GET_review e now review_id w) = Inl (HTTPException 400 detail_identificador)
            \<and> fst (GET_review e now review_id w) \<noteq> Inl (HTTPException 404 detail_no_encontrada))
       \<and> (\<forall>oid. ObjectId e review_id = Some oid
              \<and> (\<forall>d\<in>set (reviews_collection w). d_id d \<noteq> Some oid) \<longrightarrow>
            fst (GET_review e now review_id w) = Inl (HTTPException 404 detail_no_encontrada))
       \<and> (\<forall>oid. ObjectId e review_id = Some oid
              \<and> (\<exists>d\<in>set (reviews_collection w). d_id d = Some oid) \<longrightarrow>
            (\<exists>d\<in>set (reviews_collection w). d_id d = Some oid
               \<and> fst (GET_review e now review_id w)
                   = Inr (JSONResponse (serialize_review e d))))"
  using GET_review_granted[OF assms, of review_id]
    get_review_malformed[of e review_id u w]
    get_review_missing[of e review_id _ w u]
    get_review_found[of e review_id _ w u]
  by simp

lemma demo_require_user_stored:
  "require_user demo_env 1700000000 (w_session demo_world_stored)
     = (Inr demo_credentials, demo_session)"
  by (simp add: demo_world_stored_def demo_world_def demo_require_user)

theorem GET_review_outcomes_witness:
  "require_user demo_env 1700000000 (w_session demo_world_stored)
     = (Inr demo_credentials, demo_session)
   \<and> ObjectId demo_env ''not-an-id'' = None
   \<and> fst (GET_review demo_env 1700000000 ''not-an-id'' demo_world_stored)
       = Inl (HTTPException 400 detail_identificador)
   \<and> ObjectId demo_env ''000000000000000000000000'' = Some ''000000000000000000000000''
   \<and> fst (GET_review demo_env 1700000000 ''000000000000000000000000'' demo_world_stored)
       = Inl (HTTPException 404 detail_no_encontrada)
   \<and> ObjectId demo_env ''65f0a1b2c3d4e5f601234567'' = Some ''65f0a1b2c3d4e5f601234567''
   \<and> fst (GET_review demo_env 1700000000 ''65f0a1b2c3d4e5f601234567'' demo_world_stored)
       = Inr (JSONResponse (serialize_review demo_env demo_doc))"
proof -
  have ids: "ObjectId demo_env ''not-an-id'' = None"
    "ObjectId demo_env ''000000000000000000000000'' = Some ''000000000000000000000000''"
    "ObjectId demo_env ''65f0a1b2c3d4e5f601234567'' = Some ''65f0a1b2c3d4e5f601234567''"
    by (simp_all add: demo_env_def)
  have coll: "reviews_collection demo_world_stored = [demo_doc]"
    "d_id demo_doc = Some ''65f0a1b2c3d4e5f601234567''"
    by (simp_all add: demo_world_stored_def demo_world_def demo_doc_def)
  show ?thesis
    using GET_review_outcomes[OF demo_require_user_stored, of "''not-an-id''"]
      GET_review_outcomes[OF demo_require_user_stored, of "''000000000000000000000000''"]
      GET_review_outcomes[OF demo_require_user_stored, of "''65f0a1b2c3d4e5f601234567''"]
      demo_require_user_stored
    by (simp add: ids coll)
qed

section \<open>Listing the reviews\<close>

lemma GET_reviews_granted:
  "require_user e now (w_session w) = (Inr u, s') \<Longrightarrow>
     GET_reviews e now selected w = list_reviews e selected u w"
  by (simp add: GET_reviews_def with_user_Inr)

lemma list_reviews_no_selection:
  "falsy_str selected \<Longrightarrow>
     list_reviews e selected u w
       = (Inr (TemplateResponse ''mapa.html''
                 \<lparr>ctx_user = u,
                  ctx_reviews = map (serialize_review e)
                                  (find_sort_created_at_desc (reviews_collection w)),
                  ctx_selected_review = None\<rparr>),
          w\<lparr>calls := calls w @ [FindCall]\<rparr>)"
  by (simp add: list_reviews_def Let_def)

lemma list_reviews_in_list:
  "sel \<noteq> [] \<Longrightarrow>
   find (\<lambda>r. r_id r = sel)
     (map (serialize_review e) (find_sort_created_at_desc (reviews_collection w))) = Some r \<Longrightarrow>
     list_reviews e (Some sel) u w
       = (Inr (TemplateResponse ''mapa.html''
                 \<lparr>ctx_user = u,
                  ctx_reviews = map (serialize_review e)
                                  (find_sort_created_at_desc (reviews_collection w)),
                  ctx_selected_review = Some r\<rparr>),
          w\<lparr>calls := calls w @ [FindCall]\<rparr>)"
  by (simp add: list_reviews_def Let_def falsy_str_def)

lemma list_reviews_invalid:
  "sel \<noteq> [] \<Longrightarrow>
   find (\<lambda>r. r_id r = sel)
     (map (serialize_review e) (find_sort_created_at_desc (reviews_collection w))) = None \<Longrightarrow>
   ObjectId e sel = None \<Longrightarrow>
     list_reviews e (Some sel) u w
       = (Inr (TemplateResponse ''mapa.html''
                 \<lparr>ctx_user = u,
                  ctx_reviews = map (serialize_review e)
                                  (find_sort_created_at_desc (reviews_collection w)),
                  ctx_selected_review = None\<rparr>),
          w\<lparr>calls := calls w @ [FindCall]\<rparr>)"
  by (simp add: list_reviews_def Let_def falsy_str_def)

lemma list_reviews_fallback:
  "sel \<noteq> [] \<Longrightarrow>
   find (\<lambda>r. r_id r = sel)
     (map (serialize_review e) (find_sort_created_at_desc (reviews_collection w))) = None \<Longrightarrow>
   ObjectId e sel = Some oid \<Longrightarrow>
     list_reviews e (Some sel) u w
       = (Inr (TemplateResponse ''mapa.html''
                 \<lparr>ctx_user = u,
                  ctx_reviews = map (serialize_review e)
                                  (find_sort_created_at_desc (reviews_collection w)),
                  ctx_selected_review =
                    map_option (serialize_review e) (find_one (reviews_collection w) oid)\<rparr>),
          w\<lparr>calls := calls w @ [FindCall, FindOneCall]\<rparr>)"
  by (simp add: list_reviews_def Let_def falsy_str_def split: option.splits)

lemma list_reviews_renders:
  "\<exists>sr cs. list_reviews e selected u w
       = (Inr (TemplateResponse ''mapa.html''
                 \<lparr>ctx_user = u,
                  ctx_reviews = map (serialize_review e)
                                  (find_sort_created_at_desc (reviews_collection w)),
                  ctx_selected_review = sr\<rparr>),
          w\<lparr>calls := cs\<rparr>)"
proof (cases "falsy_str selected")
  case True
  then show ?thesis using list_reviews_no_selection by blast
next
  case False
  then obtain sel where sel: "selected = Some sel" "sel \<noteq> []"
    by (auto simp: falsy_str_def split: option.splits)
  let ?L = "map (serialize_review e) (find_sort_created_at_desc (reviews_collection w))"
  show ?thesis
  proof (cases "find (\<lambda>r. r_id r = sel) ?L")
    case (Some r)
    with sel show ?thesis using list_reviews_in_list by blast
  next
    case None
    with sel show ?thesis
      using list_reviews_invalid[of sel e w u] list_reviews_fallback[of sel e w _ u]
      by (cases "ObjectId e sel") blast+
  qed
qed

text \<open>
  Claim C9. For an authenticated request with a non-empty \<^verbatim>\<open>selected\<close>, the page is
  rendered (a 200 response carrying the full list) in every case. The selection is the
  first entry of the in-memory list with that identifier, if there is one, and then no
  further database call is made; otherwise an identifier that \<^verbatim>\<open>ObjectId\<close> rejects
  gives no selection; otherwise the selection is what the direct lookup finds.
\<close>

theorem GET_reviews_selected:
  assumes "require_user e now (w_session w) = (Inr u, s')" and "sel \<noteq> []"
  shows "\<exists>sr cs.
           GET_reviews e now (Some sel) w
             = (Inr (TemplateResponse ''mapa.html''
                       \<lparr>ctx_user = u,
                        ctx_reviews = map (serialize_review e)
                                        (find_sort_created_at_desc (reviews_collection w)),
                        ctx_selected_review = sr\<rparr>),
                w\<lparr>calls := cs\<rparr>)
         \<and> (\<forall>resp. fst (GET_reviews e now (Some sel) w) = Inr resp \<longrightarrow> status_code resp = 200)
         \<and> ((\<exists>r\<in>set (map (serialize_review e)
                          (find_sort_created_at_desc (reviews_collection w))). r_id r = sel) \<longrightarrow>
               sr = find (\<lambda>r. r_id r = sel)
                      (map (serialize_review e)
                         (find_sort_created_at_desc (reviews_collection w)))
               \<and> sr \<noteq> None \<and> cs = calls w @ [FindCall])
         \<and> ((\<forall>r\<in>set (map (serialize_review e)
                          (find_sort_created_at_desc (reviews_collection w))). r_id r \<noteq> sel)
              \<and> ObjectId e sel = None \<longrightarrow>
               sr = None \<and> cs = calls w @ [FindCall])
         \<and> (\<forall>oid. (\<forall>r\<in>set (map (serialize_review e)
                          (find_sort_created_at_desc (reviews_collection w))). r_id r \<noteq> sel)
              \<and> ObjectId e sel = Some oid \<longrightarrow>
               sr = map_option (serialize_review e) (find_one (reviews_collection w) oid)
               \<and> cs = calls w @ [FindCall, FindOneCall])"
proof -
  let ?L = "map (serialize_review e) (find_sort_created_at_desc (reviews_collection w))"
  note G = GET_reviews_granted[OF assms(1), of "Some sel"]
  show ?thesis
  proof (cases "find (\<lambda>r. r_id r = sel) ?L")
    case (Some r)
    then have in_list: "\<exists>r\<in>set ?L. r_id r = sel" by (auto simp: find_Some_iff)
    from list_reviews_in_list[OF assms(2) Some, of u] G in_list Some
    show ?thesis by (intro exI[of _ "Some r"] exI[of _ "calls w @ [FindCall]"]) auto
  next
    case None
    then have not_in_list: "\<forall>r\<in>set ?L. r_id r \<noteq> sel" by (auto simp: find_None_iff)
    show ?thesis
    proof (cases "ObjectId e sel")
      case invalid: None
      from list_reviews_invalid[OF assms(2) None invalid, of u] G not_in_list invalid
      show ?thesis by (intro exI[of _ None] exI[of _ "calls w @ [FindCall]"]) auto
    next
      case (Some oid)
      from list_reviews_fallback[OF assms(2) None Some, of u] G not_in_list Some
      show ?thesis
        by (intro exI[of _ "map_option (serialize_review e) (find_one (reviews_collection w) oid)"]
            exI[of _ "calls w @ [FindCall, FindOneCall]"]) auto
    qed
  qed
qed


lemma demo_sorted_stored:
  "find_sort_created_at_desc (reviews_collection demo_world_stored) = [demo_doc]"
  by (simp add: find_sort_created_at_desc_def demo_world_stored_def demo_world_def)

lemma demo_serialized_id:
  "r_id (serialize_review demo_env demo_doc) = ''65f0a1b2c3d4e5f601234567''"
  by (simp add: serialize_review_def demo_doc_def demo_env_def)

theorem GET_reviews_selected_witness:
  "require_user demo_env 1700000000 (w_session demo_world_stored)
     = (Inr demo_credentials, demo_session)
   \<and> ObjectId demo_env ''not-an-id'' = None
   \<and> GET_reviews demo_env 1700000000 (Some ''not-an-id'') demo_world_stored
       = (Inr (TemplateResponse ''mapa.html''
                 \<lparr>ctx_user = demo_credentials,
                  ctx_reviews = [serialize_review demo_env demo_doc],
                  ctx_selected_review = None\<rparr>),
          demo_world_stored\<lparr>calls := [FindCall]\<rparr>)
   \<and> GET_reviews demo_env 1700000000 (Some ''65f0a1b2c3d4e5f601234567'') demo_world_stored
       = (Inr (TemplateResponse ''mapa.html''
                 \<lparr>ctx_user = demo_credentials,
                  ctx_reviews = [serialize_review demo_env demo_doc],
                  ctx_selected_review = Some (serialize_review demo_env demo_doc)\<rparr>),
          demo_world_stored\<lparr>calls := [FindCall]\<rparr>)
   \<and> ObjectId demo_env ''65F0A1B2C3D4E5F601234567'' = Some ''65f0a1b2c3d4e5f601234567''
   \<and> GET_reviews demo_env 1700000000 (Some ''65F0A1B2C3D4E5F601234567'') demo_world_stored
       = (Inr (TemplateResponse ''mapa.html''
                 \<lparr>ctx_user = demo_credentials,
                  ctx_reviews = [serialize_review demo_env demo_doc],
                  ctx_selected_review = Some (serialize_review demo_env demo_doc)\<rparr>),
          demo_world_stored\<lparr>calls := [FindCall, FindOneCall]\<rparr>)"
proof -
  note auth = demo_require_user_stored
  have cs: "calls demo_world_stored = []"
    by (simp add: demo_world_stored_def demo_world_def)
  have ids: "ObjectId demo_env ''not-an-id'' = None"
    "ObjectId demo_env ''65F0A1B2C3D4E5F601234567'' = Some ''65f0a1b2c3d4e5f601234567''"
    by (simp_all add: demo_env_def)
  have lookup: "find_one (reviews_collection demo_world_stored) ''65f0a1b2c3d4e5f601234567''
                  = Some demo_doc"
    by (simp add: find_one_def demo_world_stored_def demo_world_def demo_doc_def)
  have a: "GET_reviews demo_env 1700000000 (Some ''not-an-id'') demo_world_stored
       = (Inr (TemplateResponse ''mapa.html''
                 \<lparr>ctx_user = demo_credentials,
                  ctx_reviews = [serialize_review demo_env demo_doc],
                  ctx_selected_review = None\<rparr>),
          demo_world_stored\<lparr>calls := [FindCall]\<rparr>)"
    using GET_reviews_selected[OF auth, of "''not-an-id''"] ids
    by (auto simp: demo_sorted_stored demo_serialized_id cs)
  have b: "GET_reviews demo_env 1700000000 (Some ''65f0a1b2c3d4e5f601234567'') demo_world_stored
       = (Inr (TemplateResponse ''mapa.html''
                 \<lparr>ctx_user = demo_credentials,
                  ctx_reviews = [serialize_review demo_env demo_doc],
                  ctx_selected_review = Some (serialize_review demo_env demo_doc)\<rparr>),
          demo_world_stored\<lparr>calls := [FindCall]\<rparr>)"
    using GET_reviews_selected[OF auth, of "''65f0a1b2c3d4e5f601234567''"]
    by (auto simp: demo_sorted_stored demo_serialized_id cs)
  have c: "GET_reviews demo_env 1700000000 (Some ''65F0A1B2C3D4E5F601234567'') demo_world_stored
       = (Inr (TemplateResponse ''mapa.html''
                 \<lparr>ctx_user = demo_credentials,
                  ctx_reviews = [serialize_review demo_env demo_doc],
                  ctx_selected_review = Some (serialize_review demo_env demo_doc)\<rparr>),
          demo_world_stored\<lparr>calls := [FindCall, FindOneCall]\<rparr>)"
    using GET_reviews_selected[OF auth, of "''65F0A1B2C3D4E5F601234567''"] ids
    by (auto simp: demo_sorted_stored demo_serialized_id cs lookup)
  from auth ids a b c show ?thesis by simp
qed

section \<open>The order of the list\<close>

lemma mset_find_sort_created_at_desc: "mset (find_sort_created_at_desc docs) = mset docs"
  by (simp add: find_sort_created_at_desc_def)

lemma sorted_find_sort_created_at_desc:
  "sorted_wrt (\<lambda>a b. d_created_at b \<le> d_created_at a) (find_sort_created_at_desc docs)"
  unfolding find_sort_created_at_desc_def sorted_wrt_rev
  using sorted_sort_key[of d_created_at docs] by (simp add: sorted_map)

lemma serialize_review_created_at: "r_created_at (serialize_review e d) = d_created_at d"
  by (simp add: serialize_review_def)

lemma find_sort_created_at_desc_three:
  "d_created_at d1 = Some t1 \<Longrightarrow> d_created_at d2 = Some t2 \<Longrightarrow> d_created_at d3 = Some t3 \<Longrightarrow>
   t1 < t2 \<Longrightarrow> t2 < t3 \<Longrightarrow> find_sort_created_at_desc [d1, d2, d3] = [d3, d2, d1]"
  by (simp add: find_sort_created_at_desc_def)

text \<open>
  Claim C5. For an authenticated request, whatever \<^verbatim>\<open>selected\<close> is, the list handed to
  the page holds the serialization of every document of the collection, each once (nothing
  is filtered out or cut off), ordered by \<^verbatim>\<open>created_at\<close> descending; three documents
  inserted at times t1 < t2 < t3 are listed third, second, first.
\<close>

theorem GET_reviews_newest_first:
  assumes "require_user e now (w_session w) = (Inr u, s')"
  shows "\<exists>listed sr cs.
           GET_reviews e now selected w
             = (Inr (TemplateResponse ''mapa.html''
                       \<lparr>ctx_user = u, ctx_reviews = listed, ctx_selected_review = sr\<rparr>),
                w\<lparr>calls := cs\<rparr>)
         \<and> mset listed = mset (map (serialize_review e) (reviews_collection w))
         \<and> sorted_wrt (\<lambda>a b. r_created_at b \<le> r_created_at a) listed
         \<and> (\<forall>d1 d2 d3 t1 t2 t3.
               reviews_collection w = [d1, d2, d3]
               \<and> d_created_at d1 = Some t1 \<and> d_created_at d2 = Some t2
               \<and> d_created_at d3 = Some t3 \<and> t1 < t2 \<and> t2 < t3 \<longrightarrow>
               listed = map (serialize_review e) [d3, d2, d1])"
proof -
  let ?L = "map (serialize_review e) (find_sort_created_at_desc (reviews_collection w))"
  from list_reviews_renders[of e selected u w] GET_reviews_granted[OF assms, of selected]
  obtain sr cs where
    "GET_reviews e now selected w
       = (Inr (TemplateResponse ''mapa.html''
                 \<lparr>ctx_user = u, ctx_reviews = ?L, ctx_selected_review = sr\<rparr>),
          w\<lparr>calls := cs\<rparr>)"
    by auto
  moreover have "mset ?L = mset (map (serialize_review e) (reviews_collection w))"
    by (simp add: mset_find_sort_created_at_desc)
  moreover have "sorted_wrt (\<lambda>a b. r_created_at b \<le> r_created_at a) ?L"
    using sorted_find_sort_created_at_desc[of "reviews_collection w"]
    by (simp add: sorted_wrt_map serialize_review_created_at)
  moreover have "\<forall>d1 d2 d3 t1 t2 t3.
               reviews_collection w = [d1, d2, d3]
               \<and> d_created_at d1 = Some t1 \<and> d_created_at d2 = Some t2
               \<and> d_created_at d3 = Some t3 \<and> t1 < t2 \<and> t2 < t3 \<longrightarrow>
               ?L = map (serialize_review e) [d3, d2, d1]"
    using find_sort_created_at_desc_three by (metis (no_types, lifting))
  ultimately show ?thesis by blast
qed

lemma demo_require_user_three:
  "require_user demo_env 1700000000 (w_session demo_world_three)
     = (Inr demo_credentials, demo_session)"
  by (simp add: demo_world_three_def demo_world_def demo_require_user)

theorem GET_reviews_newest_first_witness:
  "require_user demo_env 1700000000 (w_session demo_world_three)
     = (Inr demo_credentials, demo_session)
   \<and> reviews_collection demo_world_three = [demo_doc1, demo_doc2, demo_doc3]
   \<and> d_created_at demo_doc1 = Some 1700000100 \<and> d_created_at demo_doc2 = Some 1700000200
   \<and> d_created_at demo_doc3 = Some 1700000300
   \<and> (1700000100::int) < 1700000200 \<and> (1700000200::int) < 1700000300
   \<and> GET_reviews demo_env 1700000000 None demo_world_three
       = (Inr (TemplateResponse ''mapa.html''
                 \<lparr>ctx_user = demo_credentials,
                  ctx_reviews = map (serialize_review demo_env) [demo_doc3, demo_doc2, demo_doc1],
                  ctx_selected_review = None\<rparr>),
          demo_world_three\<lparr>calls := [FindCall]\<rparr>)"
proof -
  have coll: "reviews_collection demo_world_three = [demo_doc1, demo_doc2, demo_doc3]"
    by (simp add: demo_world_three_def)
  have times: "d_created_at demo_doc1 = Some 1700000100"
    "d_created_at demo_doc2 = Some 1700000200" "d_created_at demo_doc3 = Some 1700000300"
    by (simp_all add: demo_doc1_def demo_doc2_def demo_doc3_def)
  from GET_reviews_newest_first[OF demo_require_user_three, of None]
  obtain listed sr cs where
    R: "GET_reviews demo_env 1700000000 None demo_world_three
         = (Inr (TemplateResponse ''mapa.html''
                   \<lparr>ctx_user = demo_credentials, ctx_reviews = listed,
                    ctx_selected_review = sr\<rparr>),
            demo_world_three\<lparr>calls := cs\<rparr>)"
    and three: "\<forall>d1 d2 d3 t1 t2 t3.
               reviews_collection demo_world_three = [d1, d2, d3]
               \<and> d_created_at d1 = Some t1 \<and> d_created_at d2 = Some t2
               \<and> d_created_at d3 = Some t3 \<and> t1 < t2 \<and> t2 < t3 \<longrightarrow>
               listed = map (serialize_review demo_env) [d3, d2, d1]"
    by blast
  from three coll times
  have listed: "listed = map (serialize_review demo_env) [demo_doc3, demo_doc2, demo_doc1]"
    by simp
  have "GET_reviews demo_env 1700000000 None demo_world_three
          = list_reviews demo_env None demo_credentials demo_world_three"
    by (rule GET_reviews_granted[OF demo_require_user_three])
  also have "\<dots> = (Inr (TemplateResponse ''mapa.html''
                 \<lparr>ctx_user = demo_credentials,
                  ctx_reviews = map (serialize_review demo_env)
                     (find_sort_created_at_desc (reviews_collection demo_world_three)),
                  ctx_selected_review = None\<rparr>),
          demo_world_three\<lparr>calls := calls demo_world_three @ [FindCall]\<rparr>)"
    by (rule list_reviews_no_selection) (simp add: falsy_str_def)
  finally have "sr = None" "demo_world_three\<lparr>calls := cs\<rparr> = demo_world_three\<lparr>calls := [FindCall]\<rparr>"
    using R by (simp_all add: demo_world_three_def demo_world_def)
  with R listed demo_require_user_three coll times show ?thesis by simp
qed

section \<open>Creating a review and fetching it\<close>

lemma find_one_append_new:
  "find_one docs oid = None \<Longrightarrow> d_id d = Some oid \<Longrightarrow> find_one (docs @ [d]) oid = Some d"
  by (induction docs) (auto simp: find_one_def split: if_splits)

lemma upload_images_no_files:
  "images = None \<or> images = Some [] \<Longrightarrow> upload_images e images cs = (Inr [], cs)"
  by (auto simp: upload_images_def)

lemma insert_one_Inr:
  "insert_one e doc w = (Inr oid, w') \<Longrightarrow>
     oid = new_oid e \<and> find_one (reviews_collection w) (new_oid e) = None
     \<and> w' = w\<lparr>calls := calls w @ [InsertCall],
              reviews_collection := reviews_collection w @ [doc\<lparr>d_id := Some (new_oid e)\<rparr>]\<rparr>"
  by (auto simp: insert_one_def Let_def split: if_splits)

lemma create_review_Inr:
  assumes "create_review e nc name address rating images u w = (Inr resp, w')"
  shows "resp = RedirectResponse (''/reviews?selected='' @ oid_str e (new_oid e)) 303
       \<and> find_one (reviews_collection w) (new_oid e) = None
       \<and> w_session w' = w_session w
       \<and> (\<exists>d urls cs. fst (upload_images e images cs) = Inr urls
            \<and> reviews_collection w' = reviews_collection w @ [d]
            \<and> d_id d = Some (new_oid e) \<and> d_name d = Some name
            \<and> d_address d = Some address \<and> d_rating d = Some rating
            \<and> d_images d = Some urls)"
proof -
  from assms have rating: "\<not> (rating < 0 \<or> 5 < rating)"
    by (auto simp: create_review_def)
  obtain g cs where g: "geocode_address e address (calls w) = (g, cs)" by force
  from assms rating g obtain lat lon where geo: "g = Inr (lat, lon)"
    by (cases g) (auto simp: create_review_def)
  from assms rating g geo have "\<not> (lat = None \<or> lon = None)"
    by (auto simp: create_review_def split: if_splits)
  then obtain la lo where present: "lat = Some la" "lon = Some lo" by auto
  obtain up cs' where up: "upload_images e images cs = (up, cs')" by force
  from assms rating g geo present up obtain urls where urls: "up = Inr urls"
    by (cases up) (auto simp: create_review_def)
  let ?doc = "\<lparr>d_id = None, d_name = Some name, d_address = Some address,
                d_latitude = lat, d_longitude = lon, d_rating = Some rating,
                d_author_email = c_email (b_claims u),
                d_author_name = c_name (b_claims u),
                d_token = Some (b_token u), d_token_issued_at = b_iat u,
                d_token_expires_at = b_exp u, d_images = Some urls,
                d_created_at = Some nc\<rparr>"
  obtain r w1 where ins: "insert_one e ?doc (w\<lparr>calls := cs'\<rparr>) = (r, w1)" by force
  from assms rating g geo present up urls ins obtain oid where oid: "r = Inr oid"
    by (cases r) (auto simp: create_review_def Let_def)
  from assms rating g geo present up urls ins oid
  have res: "resp = RedirectResponse (''/reviews?selected='' @ oid_str e oid) 303" "w' = w1"
    by (auto simp: create_review_def Let_def)
  from insert_one_Inr[of e ?doc "w\<lparr>calls := cs'\<rparr>" oid w1] ins oid
  have i: "oid = new_oid e" "find_one (reviews_collection w) (new_oid e) = None"
    "w1 = w\<lparr>calls := cs' @ [InsertCall],
            reviews_collection := reviews_collection w @ [?doc\<lparr>d_id := Some (new_oid e)\<rparr>]\<rparr>"
    by simp_all
  have "fst (upload_images e images cs) = Inr urls" using up urls by simp
  moreover have "reviews_collection w' = reviews_collection w @ [?doc\<lparr>d_id := Some (new_oid e)\<rparr>]"
    using res i by simp
  ultimately have "\<exists>d urls cs. fst (upload_images e images cs) = Inr urls
            \<and> reviews_collection w' = reviews_collection w @ [d]
            \<and> d_id d = Some (new_oid e) \<and> d_name d = Some name
            \<and> d_address d = Some address \<and> d_rating d = Some rating
            \<and> d_images d = Some urls"
    by (intro exI[of _ "?doc\<lparr>d_id := Some (new_oid e)\<rparr>"] exI[of _ urls] exI[of _ cs]) simp
  with res i show ?thesis by simp
qed

lemma create_then_get:
  assumes post: "POST_reviews e now nc name address rating images w
                   = (Inr (RedirectResponse (''/reviews?selected='' @ rid) 303), w')"
    and imgs: "images = None \<or> images = Some []"
    and oid: "ObjectId e (oid_str e (new_oid e)) = Some (new_oid e)"
    and auth: "require_user e now2 (w_session w') = (Inr u2, s2)"
  shows "\<exists>r. fst (GET_review e now2 rid w') = Inr (JSONResponse r)
          \<and> r_id r = rid \<and> r_name r = Some name \<and> r_address r = Some address
          \<and> r_rating r = Some rating \<and> r_images r = []"
proof (cases rule: with_user_cases[of e now w "create_review e nc name address rating images"])
  case (denied err s')
  with post show ?thesis by (simp add: POST_reviews_def)
next
  case (granted u)
  with post have cr: "create_review e nc name address rating images u w
                        = (Inr (RedirectResponse (''/reviews?selected='' @ rid) 303), w')"
    by (simp add: POST_reviews_def)
  from create_review_Inr[OF cr] obtain d urls cs where
    rid: "rid = oid_str e (new_oid e)"
    and fresh: "find_one (reviews_collection w) (new_oid e) = None"
    and up: "fst (upload_images e images cs) = Inr urls"
    and coll: "reviews_collection w' = reviews_collection w @ [d]"
    and d: "d_id d = Some (new_oid e)" "d_name d = Some name" "d_address d = Some address"
      "d_rating d = Some rating" "d_images d = Some urls"
    by auto
  from up upload_images_no_files[OF imgs, of e cs] have urls: "urls = []" by simp
  from find_one_append_new[OF fresh d(1)] coll
  have found: "find_one (reviews_collection w') (new_oid e) = Some d" by simp
  have "GET_review e now2 rid w' = get_review e rid u2 w'"
    by (rule GET_review_granted[OF auth])
  with rid oid found
  have "fst (GET_review e now2 rid w') = Inr (JSONResponse (serialize_review e d))"
    by (simp add: get_review_def)
  moreover have "r_id (serialize_review e d) = rid"
    "r_name (serialize_review e d) = Some name"
    "r_address (serialize_review e d) = Some address"
    "r_rating (serialize_review e d) = Some rating"
    "r_images (serialize_review e d) = []"
    using d urls rid by (simp_all add: serialize_review_def)
  ultimately show ?thesis by blast
qed

text \<open>
  Claim C6. A review created with name "Cafe X", address "123 Main St", rating 4 and no
  image files, and then fetched under the identifier of the redirect (with a session that
  is still valid), is returned with that identifier, the same name, address and rating,
  and an empty list of images. The identifier is the one bson writes and reads back:
  \<^verbatim>\<open>ObjectId(str(oid)) == oid\<close>.
\<close>

theorem create_then_get_cafe_x:
  assumes "POST_reviews e now nc ''Cafe X'' ''123 Main St'' 4 images w
             = (Inr (RedirectResponse (''/reviews?selected='' @ rid) 303), w')"
    and "images = None \<or> images = Some []"
    and "ObjectId e (oid_str e (new_oid e)) = Some (new_oid e)"
    and "require_user e now2 (w_session w') = (Inr u2, s2)"
  shows "\<exists>r. fst (GET_review e now2 rid w') = Inr (JSONResponse r)
          \<and> r_id r = rid \<and> r_name r = Some ''Cafe X'' \<and> r_address r = Some ''123 Main St''
          \<and> r_rating r = Some 4 \<and> r_images r = []"
  using assms by (rule create_then_get)

theorem create_then_get_cafe_x_witness:
  "POST_reviews demo_env 1700000000 1700000001 ''Cafe X'' ''123 Main St'' 4 None demo_world
     = (Inr (RedirectResponse (''/reviews?selected='' @ ''65f0a1b2c3d4e5f601234567'') 303),
        demo_world\<lparr>reviews_collection := [demo_doc],
                   calls := [GeocodeCall ''123 Main St'', InsertCall]\<rparr>)
   \<and> ObjectId demo_env (oid_str demo_env (new_oid demo_env)) = Some (new_oid demo_env)
   \<and> require_user demo_env 1700000005
        (w_session (demo_world\<lparr>reviews_collection := [demo_doc],
                               calls := [GeocodeCall ''123 Main St'', InsertCall]\<rparr>))
       = (Inr demo_credentials, demo_session)
   \<and> fst (GET_review demo_env 1700000005 ''65f0a1b2c3d4e5f601234567''
            (demo_world\<lparr>reviews_collection := [demo_doc],
                        calls := [GeocodeCall ''123 Main St'', InsertCall]\<rparr>))
       = Inr (JSONResponse (serialize_review demo_env demo_doc))
   \<and> r_name (serialize_review demo_env demo_doc) = Some ''Cafe X''
   \<and> r_address (serialize_review demo_env demo_doc) = Some ''123 Main St''
   \<and> r_rating (serialize_review demo_env demo_doc) = Some 4
   \<and> r_images (serialize_review demo_env demo_doc) = []"
proof -
  let ?w' = "demo_world\<lparr>reviews_collection := [demo_doc],
                        calls := [GeocodeCall ''123 Main St'', InsertCall]\<rparr>"
  have post: "POST_reviews demo_env 1700000000 1700000001 ''Cafe X'' ''123 Main St'' 4 None
                demo_world
     = (Inr (RedirectResponse (''/reviews?selected='' @ ''65f0a1b2c3d4e5f601234567'') 303), ?w')"
    using demo_POST_ok by simp
  have oid: "ObjectId demo_env (oid_str demo_env (new_oid demo_env)) = Some (new_oid demo_env)"
    by (simp add: demo_env_def)
  have auth: "require_user demo_env 1700000005 (w_session ?w')
                = (Inr demo_credentials, demo_session)"
    by (simp add: require_user_def demo_env_def demo_session_def demo_credentials_def
        demo_world_def parse_session_datetime_def falsy_str_def)
  from create_then_get_cafe_x[OF post _ oid auth]
  obtain r where r: "fst (GET_review demo_env 1700000005 ''65f0a1b2c3d4e5f601234567'' ?w')
                       = Inr (JSONResponse r)"
    and fields: "r_name r = Some ''Cafe X''" "r_address r = Some ''123 Main St''"
      "r_rating r = Some 4" "r_images r = []"
    by auto
  have "GET_review demo_env 1700000005 ''65f0a1b2c3d4e5f601234567'' ?w'
          = get_review demo_env ''65f0a1b2c3d4e5f601234567'' demo_credentials ?w'"
    by (rule GET_review_granted[OF auth])
  then have "fst (GET_review demo_env 1700000005 ''65f0a1b2c3d4e5f601234567'' ?w')
          = Inr (JSONResponse (serialize_review demo_env demo_doc))"
    by (simp add: get_review_def find_one_def demo_env_def demo_doc_def)
  with r have "r = serialize_review demo_env demo_doc" by simp
  with fields r post oid auth show ?thesis by simp
qed

section \<open>The media uploader\<close>

lemma returned_urls_Nil: "returned_urls e [] = []"
  by (simp add: returned_urls_def)

lemma returned_urls_Cons:
  "cloudinary_upload e (uf_file f) = Inr r \<Longrightarrow>
     returned_urls e (f # fs) = (if falsy_str r then [] else [the r]) @ returned_urls e fs"
  by (cases r) (simp_all add: returned_urls_def falsy_str_def)

lemma upload_loop_accepted:
  "\<forall>f\<in>set (accepted files). \<exists>r. cloudinary_upload e (uf_file f) = Inr r \<Longrightarrow>
     upload_loop e files urls cs
       = (Inr (urls @ returned_urls e (accepted files)),
          cs @ map (\<lambda>f. UploadCall (uf_file f)) (accepted files))"
proof (induction files arbitrary: urls cs)
  case Nil
  then show ?case by (simp add: returned_urls_Nil)
next
  case (Cons x files)
  show ?case
  proof (cases x)
    case None
    with Cons show ?thesis by simp
  next
    case (Some f)
    show ?thesis
    proof (cases "falsy_str (uf_filename f)")
      case True
      with Some Cons show ?thesis by simp
    next
      case False
      with Some Cons.prems obtain r where r: "cloudinary_upload e (uf_file f) = Inr r"
        by auto
      from False Some Cons.prems
      have rest: "\<forall>f\<in>set (accepted files). \<exists>r. cloudinary_upload e (uf_file f) = Inr r"
        by simp
      show ?thesis
        using False Some r Cons.IH[OF rest] by (simp add: returned_urls_Cons)
    qed
  qed
qed

text \<open>
  Claim C8, as amended. An absent or empty collection yields the empty sequence and no
  upload. Otherwise the entries that are \<^verbatim>\<open>None\<close> or have no (or an empty) file name are
  skipped, every other file is uploaded in order whatever its content, and, when no upload
  raises, the result is the sequence of the non-empty secure URLs returned, in that order.
\<close>

theorem upload_images_accepted:
  "upload_images e None cs = (Inr [], cs)
   \<and> upload_images e (Some []) cs = (Inr [], cs)
   \<and> ((\<forall>f\<in>set (accepted files). \<exists>r. cloudinary_upload e (uf_file f) = Inr r) \<longrightarrow>
        upload_images e (Some files) cs
          = (Inr (returned_urls e (accepted files)),
             cs @ map (\<lambda>f. UploadCall (uf_file f)) (accepted files)))"
proof (intro conjI impI)
  show "upload_images e None cs = (Inr [], cs)" "upload_images e (Some []) cs = (Inr [], cs)"
    by (simp_all add: upload_images_def)
next
  assume ok: "\<forall>f\<in>set (accepted files). \<exists>r. cloudinary_upload e (uf_file f) = Inr r"
  show "upload_images e (Some files) cs
          = (Inr (returned_urls e (accepted files)),
             cs @ map (\<lambda>f. UploadCall (uf_file f)) (accepted files))"
  proof (cases files)
    case Nil
    then show ?thesis by (simp add: upload_images_def returned_urls_Nil)
  next
    case (Cons x xs)
    then have "upload_images e (Some files) cs = upload_loop e files [] cs"
      by (simp add: upload_images_def)
    with upload_loop_accepted[OF ok, of "[]" cs] show ?thesis by simp
  qed
qed

lemma demo_accepted:
  "accepted demo_mixed_files
     = [\<lparr>uf_filename = Some ''a.png'', uf_file = ''PNG1''\<rparr>,
        \<lparr>uf_filename = Some ''b.png'', uf_file = ''PNG4''\<rparr>]"
  by (simp add: demo_mixed_files_def falsy_str_def)

theorem upload_images_accepted_witness:
  "accepted demo_mixed_files
     = [\<lparr>uf_filename = Some ''a.png'', uf_file = ''PNG1''\<rparr>,
        \<lparr>uf_filename = Some ''b.png'', uf_file = ''PNG4''\<rparr>]
   \<and> cloudinary_upload demo_env ''PNG1''
       = Inr (Some ''https://res.cloudinary.com/demo/reviews/PNG1'')
   \<and> cloudinary_upload demo_env ''PNG4''
       = Inr (Some ''https://res.cloudinary.com/demo/reviews/PNG4'')
   \<and> upload_images demo_env (Some demo_mixed_files) []
       = (Inr [''https://res.cloudinary.com/demo/reviews/PNG1'',
               ''https://res.cloudinary.com/demo/reviews/PNG4''],
          [UploadCall ''PNG1'', UploadCall ''PNG4''])"
proof -
  have up: "cloudinary_upload demo_env ''PNG1''
              = Inr (Some ''https://res.cloudinary.com/demo/reviews/PNG1'')"
    "cloudinary_upload demo_env ''PNG4''
       = Inr (Some ''https://res.cloudinary.com/demo/reviews/PNG4'')"
    by (simp_all add: demo_env_def)
  have urls: "returned_urls demo_env (accepted demo_mixed_files)
          = [''https://res.cloudinary.com/demo/reviews/PNG1'',
             ''https://res.cloudinary.com/demo/reviews/PNG4'']"
    by (simp add: demo_accepted returned_urls_def up)
  from upload_images_accepted[of demo_env "[]" demo_mixed_files] up
  have "upload_images demo_env (Some demo_mixed_files) []
          = (Inr (returned_urls demo_env (accepted demo_mixed_files)),
             [] @ map (\<lambda>f. UploadCall (uf_file f)) (accepted demo_mixed_files))"
    by (simp add: demo_accepted)
  with urls up demo_accepted show ?thesis by simp
qed

text \<open>
  The claim as stated fails on a named file with no content: the specification's wording
  skips it, the source hands its empty stream to the uploader and keeps the URL it gets.
\<close>

theorem upload_images_empty_content_counterexample:
  "uf_file demo_empty_file = []
   \<and> accepted_spec [Some demo_empty_file] = []
   \<and> upload_images demo_env (Some [Some demo_empty_file]) []
       = (Inr [''https://res.cloudinary.com/demo/reviews/''], [UploadCall ''''])
   \<and> upload_images demo_env (Some [Some demo_empty_file]) []
       \<noteq> (Inr (returned_urls demo_env (accepted_spec [Some demo_empty_file])),
           map (\<lambda>f. UploadCall (uf_file f)) (accepted_spec [Some demo_empty_file]))"
  by (simp add: demo_empty_file_def upload_images_def falsy_str_def demo_env_def
      returned_urls_def)

end
